theory Spec2Isabelle
  imports Complex_Main "HOL-Library.AList"
begin

section \<open>Python values and errors\<close>

text \<open>
  The plugin is Python. Its numbers (altitudes, headings, speeds, severities) are
  modelled as exact reals, a raise as a value of the type \<open>error\<close> on the left of a sum,
  and a dictionary as an association list in insertion order.
\<close>

datatype error = KeyError | TypeError | ZeroDivisionError | ValueError

datatype pyval = Num real | Bool bool

text \<open>Python's \<open>bool\<close> is a subtype of \<open>int\<close>: in arithmetic \<open>True\<close> is 1, \<open>False\<close> is 0.\<close>

fun num :: "pyval \<Rightarrow> real" where
  "num (Num x) = x"
| "num (Bool b) = (if b then 1 else 0)"

text \<open>\<open>x % m\<close> on Python numbers: the result has the sign of \<open>m\<close>.\<close>

definition pymod :: "real \<Rightarrow> real \<Rightarrow> real" where
  "pymod x m = x - m * of_int \<lfloor>x / m\<rfloor>"

text \<open>\<open>needle in s\<close> on two Python strings: \<open>needle\<close> occurs in \<open>s\<close> as a substring.\<close>

fun startswith :: "string \<Rightarrow> string \<Rightarrow> bool" where
  "startswith s [] = True"
| "startswith [] (p # ps) = False"
| "startswith (c # cs) (p # ps) = (c = p \<and> startswith cs ps)"

fun str_contains :: "string \<Rightarrow> string \<Rightarrow> bool" where
  "str_contains needle [] = (needle = [])"
| "str_contains needle (c # cs) = (startswith (c # cs) needle \<or> str_contains needle cs)"

section \<open>The weather server: \<open>clientHandler.handle\<close>\<close>

text \<open>
  \<open>data = self.request[0].strip("\n\c\t ")\<close>: \<open>\c\<close> is no escape sequence of Python, so the
  stripped characters are newline, backslash, \<open>c\<close>, tab and space.
\<close>

definition strip_set :: "char list" where
  "strip_set = [CHR 0x0A, CHR 0x5C, CHR ''c'', CHR 0x09, CHR '' '']"

definition strip :: "char list \<Rightarrow> string \<Rightarrow> string" where
  "strip cs s = rev (dropWhile (\<lambda>c. c \<in> set cs) (rev (dropWhile (\<lambda>c. c \<in> set cs) s)))"

fun split :: "char \<Rightarrow> string \<Rightarrow> string list" where
  "split d [] = [[]]"
| "split d (c # cs) =
     (if c = d then [] # split d cs
      else (case split d cs of [] \<Rightarrow> [[c]] | w # ws \<Rightarrow> (c # w) # ws))"

text \<open>
  What one call of \<open>handle\<close> does to the world, in order. The collaborators
  (\<open>self.getWeatherData\<close>, which parses the forecast grids, and \<open>gfs.metar.getMetar\<close>) are
  parameters: \<open>getWeatherData\<close> raises when a coordinate is no number, \<open>getMetar\<close> may
  return a falsy value (\<open>None\<close> here).
\<close>

datatype 'r effect =
    StartShutdownThread
  | ConfLoad
  | SendTo 'r
  | Print string nat

definition handle ::
  "(string list \<Rightarrow> error + 'r) \<Rightarrow> (string \<Rightarrow> 'r option) \<Rightarrow> ('r \<Rightarrow> nat) \<Rightarrow> string
     \<Rightarrow> error + 'r effect list" where
  "handle getWeatherData getMetar getsizeof request0 =
     (let data = strip strip_set request0;
          finish = (\<lambda>pre response.
             (case response of
                None \<Rightarrow> Inr (pre @ [Print data 0])
              | Some r \<Rightarrow> Inr (pre @ [SendTo r, Print data (getsizeof r)])))
      in if length data > 1 then
           if hd data = CHR ''?'' then
             (let sdata = split (CHR ''|'') (tl data)
              in if length sdata > 1 then
                   (case getWeatherData sdata of
                      Inl e \<Rightarrow> Inl e
                    | Inr r \<Rightarrow> finish [] (Some r))
                 else if length data = 5 then finish [] (getMetar (tl data))
                 else finish [] None)
           else if data = ''!shutdown'' then finish [StartShutdownThread] None
           else if data = ''!reload'' then finish [ConfLoad] None
           else Inr []
         else finish [] None)"

section \<open>The plugin state\<close>

text \<open>
  A decoded datagram is a string (the termination marker) or a dictionary. Of a dictionary
  the model keeps the keys the plugin reads; each may be absent. A station report's cloud
  is \<open>(base, cover, extra)\<close> in the source; \<open>extra\<close> is never read and is left out.
  \<open>m_variable_wind\<close> is \<open>None\<close> when the key is absent or its value is falsy.
  \<open>m_temperature\<close> holds temperature and dew point, each \<open>None\<close> where the source has
  \<open>False\<close>.
\<close>

record metar_report =
  m_elevation :: "real option"
  m_distance :: "real option"
  m_wind :: "(real \<times> real \<times> real) option"
  m_variable_wind :: "(real \<times> real) option"
  m_temperature :: "(real option \<times> real option) option"
  m_clouds :: "(real \<times> string) list option"

text \<open>
  A wind layer is the Python list \<open>[alt, hdg, speed, extra]\<close>. The list itself is never
  written by the functions below, but its \<open>extra\<close> dictionary is a shared mutable object:
  the layer holds its address in the heap, and the heap maps addresses to dictionaries.
  A layer of a Python program holds the address of a dictionary that exists; no theorem
  below depends on what the model reads at an address outside the heap.
\<close>

type_synonym extras = "(string \<times> pyval) list"

type_synonym heap = "extras list"

record wlayer =
  l_alt :: real
  l_hdg :: real
  l_speed :: real
  l_extra :: nat

definition alloc :: "extras \<Rightarrow> heap \<Rightarrow> nat \<times> heap" where
  "alloc d h = (length h, h @ [d])"

text \<open>
  The forecast part of a snapshot: its wind layers, which the frame loop hands to
  \<open>setWinds\<close> (\<open>self.weather.setWinds(wdata['gfs']['winds'], elapsedMe)\<close>), and its
  cloud bands.
\<close>

record gfs_data =
  g_winds :: "wlayer list option"
  g_clouds :: "(real \<times> real \<times> real) list option"

record wdict =
  d_info :: "(real \<times> real) option"
  d_gfs :: "gfs_data option"
  d_metar :: "metar_report option"

datatype payload = PStr string | PDict wdict

text \<open>The settings of \<open>self.conf\<close> that the functions below read.\<close>

record conf =
  metar_agl_limit :: real
  metar_distance_limit :: real
  windHdgTransSpeed :: real
  windGustTransSpeed :: real
  turbulence_probability :: real
  max_cloud_height :: real

text \<open>The simulator variables bound in \<open>__init__\<close>, three wind and three cloud layers.\<close>

record wind_dref =
  w_hdg :: real
  w_speed :: real
  w_gust :: real
  w_gust_hdg :: real
  w_turbulence :: real

datatype cover = XP real | Code string

record cloud_dref =
  cl_top :: real
  cl_bottom :: real
  cl_coverage :: real

text \<open>
  The state the methods of \<open>Weather\<close> work on: the fields of \<open>self\<close> (\<open>self.alt\<close>,
  \<open>self.winds\<close> and \<open>self.clouds\<close> carry the prefix \<open>self_\<close>, the others their own names),
  the published \<open>self.data\<close> lists, the heap of \<open>extra\<close> dictionaries, and \<open>cst\<close>, the state
  of the helper module \<open>c\<close> (its transition table, its random patterns).
  \<open>self.winds\<close> and \<open>self.clouds\<close> are built with three entries and never resized.
\<close>

record 'c weather =
  self_alt :: real
  conf :: conf
  weatherData :: "payload option"
  newData :: bool
  queryResponses :: "payload list"
  die :: bool
  windAlts :: int
  self_winds :: "wind_dref list"
  self_clouds :: "cloud_dref list"
  msltemp :: real
  msldewp :: real
  override_clouds :: int
  data_cloud_base :: "real list"
  data_cloud_top :: "real list"
  data_cloud_cover :: "cover list"
  heap :: heap
  cst :: 'c

text \<open>
  The helper module \<open>c\<close> (\<open>noaweather/c.py\<close>) is not among the sources. Its functions
  are parameters of the model, collected in a record; those that keep state between calls
  (\<open>c.transrefs\<close>, \<open>c.randRefs\<close>) take and return the module state \<open>'c\<close>. Optional
  arguments are options.
  \<open>c_randPattern id value elapsed p4 min_time max_time\<close> stands for
  \<open>c.randPattern(id, value, elapsed, p4, min_time=..., max_time=...)\<close>.
\<close>

record 'c clib =
  c_transition :: "real \<Rightarrow> string \<Rightarrow> real \<Rightarrow> real \<Rightarrow> 'c \<Rightarrow> real \<times> 'c"
  c_transitionHdg :: "real \<Rightarrow> string \<Rightarrow> real \<Rightarrow> real \<Rightarrow> 'c \<Rightarrow> real \<times> 'c"
  c_transitionClearReferences :: "string list \<Rightarrow> 'c \<Rightarrow> 'c"
  c_randPattern ::
    "string \<Rightarrow> real \<Rightarrow> real \<Rightarrow> real option \<Rightarrow> real option \<Rightarrow> real option \<Rightarrow> 'c \<Rightarrow> real \<times> 'c"
  c_interpolate :: "real \<Rightarrow> real \<Rightarrow> real \<Rightarrow> real \<Rightarrow> real \<Rightarrow> real"
  c_expoCosineInterpolate :: "real \<Rightarrow> real \<Rightarrow> real \<Rightarrow> real \<Rightarrow> real \<Rightarrow> real option \<Rightarrow> real"
  c_expoCosineInterpolateHeading :: "real \<Rightarrow> real \<Rightarrow> real \<Rightarrow> real \<Rightarrow> real \<Rightarrow> real \<Rightarrow> real"
  c_oat2msltemp :: "real \<Rightarrow> real \<Rightarrow> real"
  c_limit :: "real \<Rightarrow> real \<Rightarrow> real option \<Rightarrow> real"
  c_f2m :: "real \<Rightarrow> real"
  c_cc2xp :: "real \<Rightarrow> real"

section \<open>The client thread: \<open>Weather.weatherClient\<close>\<close>

text \<open>\<open>'info' in wdata\<close>: a substring test on a string, a key test on a dictionary.\<close>

fun has_info :: "payload \<Rightarrow> bool" where
  "has_info (PStr s) = str_contains ''info'' s"
| "has_info (PDict d) = (d_info d \<noteq> None)"

datatype 'a loop = Break 'a | Continue 'a

text \<open>One iteration of the \<open>while True\<close> loop, on the datagram \<open>wdata\<close> just decoded.\<close>

definition weatherClient_step :: "payload \<Rightarrow> 'c weather \<Rightarrow> 'c weather loop" where
  "weatherClient_step wdata s =
     (if die s \<or> wdata = PStr ''!bye'' then Break s
      else if \<not> has_info wdata then
        Continue (s\<lparr>queryResponses := queryResponses s @ [wdata]\<rparr>)
      else Continue (s\<lparr>weatherData := Some wdata, newData := True\<rparr>))"

text \<open>
  The loop over the datagrams received and decoded so far; it leaves at the first break.
  The \<open>!ping\<close> that the thread sends before the loop goes to the socket and changes
  nothing of the state.
\<close>

fun weatherClient :: "payload list \<Rightarrow> 'c weather \<Rightarrow> 'c weather" where
  "weatherClient [] s = s"
| "weatherClient (wdata # rest) s =
     (case weatherClient_step wdata s of
        Break s' \<Rightarrow> s'
      | Continue s' \<Rightarrow> weatherClient rest s')"

section \<open>Turbulence: \<open>Weather.setTurbulence\<close>\<close>

text \<open>
  The \<open>for clayer in turbulence\<close> loop on a list that starts with \<open>clayer\<close>: it returns
  \<open>prevlayer\<close> (\<open>None\<close> for \<open>False\<close>) and the \<open>clayer\<close> the loop ended on.
\<close>

fun turb_search ::
  "real \<Rightarrow> (real \<times> real) option \<Rightarrow> real \<times> real \<Rightarrow> (real \<times> real) list
     \<Rightarrow> (real \<times> real) option \<times> (real \<times> real)" where
  "turb_search a prevlayer clayer [] =
     (if fst clayer > a then (prevlayer, clayer) else (Some clayer, clayer))"
| "turb_search a prevlayer clayer (n # rest) =
     (if fst clayer > a then (prevlayer, clayer) else turb_search a (Some clayer) n rest)"

text \<open>The value \<open>turb\<close> before it is scaled: 0 unless the list has more than one band.\<close>

definition turb_value :: "'c clib \<Rightarrow> real \<Rightarrow> (real \<times> real) list \<Rightarrow> real" where
  "turb_value C a turbulence =
     (if length turbulence > 1 then
        (case turb_search a None (hd turbulence) (tl turbulence) of
           (Some prevlayer, clayer) \<Rightarrow>
             c_interpolate C (snd prevlayer) (snd clayer) (fst prevlayer) (fst clayer) a
         | (None, clayer) \<Rightarrow> snd clayer)
      else 0)"

definition setTurbulence ::
  "'c clib \<Rightarrow> (real \<times> real) list \<Rightarrow> real \<Rightarrow> 'c weather \<Rightarrow> 'c weather" where
  "setTurbulence C turbulence elapsed s =
     (let turb = turb_value C (self_alt s) turbulence;
          turb = turb * turbulence_probability (conf s);
          (turb, c') = c_randPattern C ''turbulence'' turb elapsed (Some 20) (Some 1) None (cst s)
      in s\<lparr>self_winds := map (\<lambda>w. w\<lparr>w_turbulence := turb\<rparr>) (take 3 (self_winds s))
                           @ drop 3 (self_winds s),
           cst := c'\<rparr>)"

section \<open>Winds: \<open>Weather.setWinds\<close> and its helpers\<close>

text \<open>
  \<open>str(i)\<close> of a layer index, and of \<open>blayer\<close>, which is \<open>False\<close> (here \<open>None\<close>) until
  the search has passed a layer.
\<close>

fun str_nat :: "nat \<Rightarrow> string" where
  "str_nat n =
     (if n < 10 then [''0123456789'' ! n]
      else str_nat (n div 10) @ [''0123456789'' ! (n mod 10)])"

declare str_nat.simps [simp del]

fun str_blayer :: "nat option \<Rightarrow> string" where
  "str_blayer None = ''False''"
| "str_blayer (Some i) = str_nat i"

text \<open>
  \<open>a / b\<close> on Python numbers raises on a zero divisor, where HOL's division yields 0.
\<close>

definition py_div :: "real \<Rightarrow> real \<Rightarrow> error + real" where
  "py_div a b = (if b = 0 then Inl ZeroDivisionError else Inr (a / b))"

text \<open>
  \<open>transWindLayer\<close>. One round of \<open>for var in ['gust', 'rh', 'dew']\<close> writes the
  transitioned value back into the layer's own \<open>extra\<close> dictionary, at its address. The
  helpers of \<open>c\<close> compute on numbers: a value of a dictionary is handed to them as the
  number it is (\<open>num\<close>).
\<close>

definition trans_extra ::
  "'c clib \<Rightarrow> string \<Rightarrow> real \<Rightarrow> nat \<Rightarrow> string \<Rightarrow> 'c weather \<Rightarrow> 'c weather" where
  "trans_extra C ident elapsed extra var s =
     (case map_of (heap s ! extra) var of
        None \<Rightarrow> s
      | Some v \<Rightarrow>
          (let (v', c') = c_transition C (num v) (ident @ ''-'' @ var) elapsed
                            (windGustTransSpeed (conf s)) (cst s)
           in s\<lparr>heap := (heap s)[extra := AList.update var (Num v') (heap s ! extra)],
                cst := c'\<rparr>))"

definition transWindLayer ::
  "'c clib \<Rightarrow> wlayer \<Rightarrow> string \<Rightarrow> real \<Rightarrow> 'c weather \<Rightarrow> wlayer \<times> 'c weather" where
  "transWindLayer C wlayer ident elapsed s =
     (let (hdg, c1) = c_transitionHdg C (l_hdg wlayer) (ident @ ''-hdg'') elapsed
                        (windHdgTransSpeed (conf s)) (cst s);
          (speed, c2) = c_transition C (l_speed wlayer) (ident @ ''-speed'') elapsed
                          (windHdgTransSpeed (conf s)) c1;
          s = fold (trans_extra C ident elapsed (l_extra wlayer)) [''gust'', ''rh'', ''dew'']
                (s\<lparr>cst := c2\<rparr>);
          s = (if map_of (heap s ! l_extra wlayer) ''gust_hdg'' \<noteq> None
               then s\<lparr>heap := (heap s)[l_extra wlayer :=
                          AList.update ''gust_hdg'' (Num 0) (heap s ! l_extra wlayer)]\<rparr>
               else s)
      in (wlayer\<lparr>l_hdg := hdg, l_speed := speed\<rparr>, s))"

text \<open>
  \<open>interpolateWindLayer\<close>. One round of \<open>for key in wlayer1[3]\<close> on the new dictionary
  \<open>layer[3]\<close>; \<open>e2\<close> is \<open>wlayer2[3]\<close>. \<open>if nlayer\<close> tests the index for zero.
\<close>

definition interpolate_extra ::
  "'c clib \<Rightarrow> nat \<Rightarrow> real \<Rightarrow> real \<Rightarrow> real \<Rightarrow> extras \<Rightarrow> string \<times> pyval \<Rightarrow> extras \<Rightarrow> extras" where
  "interpolate_extra C nlayer alt1 alt2 current_altitude e2 kv layer3 =
     (case kv of (key, v1) \<Rightarrow>
        (let keep = (if key \<noteq> ''temp'' \<and> key \<noteq> ''dew''
                     then AList.update key v1 layer3 else layer3)
         in case map_of e2 key of
              None \<Rightarrow> keep
            | Some v2 \<Rightarrow>
                if v2 \<noteq> Bool False then
                  AList.update key
                    (Num (if nlayer \<noteq> 0
                          then c_interpolate C (num v1) (num v2) alt1 alt2 current_altitude
                          else c_expoCosineInterpolate C (num v1) (num v2) alt1 alt2
                                 current_altitude None))
                    layer3
                else keep))"

text \<open>"Weight heading interpolation using wind speed": the value of \<open>expo\<close>.\<close>

definition heading_expo :: "wlayer \<Rightarrow> wlayer \<Rightarrow> error + real" where
  "heading_expo wlayer1 wlayer2 =
     (if l_speed wlayer1 \<noteq> 0 \<or> l_speed wlayer2 \<noteq> 0
      then py_div (2 * l_speed wlayer1) (l_speed wlayer1 + l_speed wlayer2)
      else Inr 1)"

definition interpolateWindLayer ::
  "'c clib \<Rightarrow> wlayer \<Rightarrow> wlayer \<Rightarrow> real \<Rightarrow> nat \<Rightarrow> 'c weather \<Rightarrow> error + wlayer \<times> 'c weather" where
  "interpolateWindLayer C wlayer1 wlayer2 current_altitude nlayer s =
     (if l_alt wlayer1 = l_alt wlayer2 then Inr (wlayer1, s)
      else
        (let (layer3, h) = alloc [] (heap s)
         in case heading_expo wlayer1 wlayer2 of
              Inl e \<Rightarrow> Inl e
            | Inr expo \<Rightarrow>
                (let hdg = c_expoCosineInterpolateHeading C (l_hdg wlayer1) (l_hdg wlayer2)
                             (l_alt wlayer1) (l_alt wlayer2) current_altitude expo;
                     speed =
                       (if nlayer \<noteq> 0
                        then c_interpolate C (l_speed wlayer1) (l_speed wlayer2)
                               (l_alt wlayer1) (l_alt wlayer2) current_altitude
                        else c_expoCosineInterpolate C (l_speed wlayer1) (l_speed wlayer2)
                               (l_alt wlayer1) (l_alt wlayer2) current_altitude (Some expo));
                     h = (if map_of (h ! l_extra wlayer1) ''variation'' = None
                          then h[l_extra wlayer1 :=
                                 AList.update ''variation'' (Num 0) (h ! l_extra wlayer1)]
                          else h);
                     h = h[layer3 :=
                           fold (interpolate_extra C nlayer (l_alt wlayer1) (l_alt wlayer2)
                                   current_altitude (h ! l_extra wlayer2))
                             (h ! l_extra wlayer1) (h ! layer3)]
                 in Inr (\<lparr>l_alt = current_altitude, l_hdg = hdg, l_speed = speed,
                           l_extra = layer3\<rparr>,
                         s\<lparr>heap := h\<rparr>))))"

definition setWindLayer :: "nat \<Rightarrow> wlayer \<Rightarrow> real \<Rightarrow> 'c weather \<Rightarrow> 'c weather" where
  "setWindLayer index wlayer elapsed s =
     (let extra = heap s ! l_extra wlayer;
          hdg = (case map_of extra ''variation'' of
                   Some v \<Rightarrow> pymod (l_hdg wlayer + num v) 360
                 | None \<Rightarrow> l_hdg wlayer);
          wind = (self_winds s ! index)\<lparr>w_hdg := hdg, w_speed := l_speed wlayer\<rparr>;
          wind = (case map_of extra ''gust'' of
                    Some g \<Rightarrow> wind\<lparr>w_gust := num g\<rparr>
                  | None \<Rightarrow> wind)
      in s\<lparr>self_winds := (self_winds s)[index := wind]\<rparr>)"

text \<open>
  "Append metar layer", the first block of \<open>setWinds\<close>, on the copy \<open>winds[:]\<close> of the
  forecast layers: it returns the list the search runs on. The dictionary \<open>extra\<close> of the
  new layer is a new object of the heap.
\<close>

definition metar_variable_wind ::
  "'c clib \<Rightarrow> metar_report \<Rightarrow> real \<Rightarrow> extras \<Rightarrow> real \<Rightarrow> 'c \<Rightarrow> real \<times> extras \<times> 'c" where
  "metar_variable_wind C m hdg extra elapsed c =
     (case m_variable_wind m of
        None \<Rightarrow> (hdg, extra, c)
      | Some (h1, h2) \<Rightarrow>
          (let h1 = pymod h1 360;
               var = (if h1 > h2 then 360 - h1 + h2 else h2 - h1);
               (v, c') = c_randPattern C ''metar_wind_hdg'' var elapsed None (Some 20) (Some 50) c
           in (h1, AList.update ''variation'' (Num v) extra, c')))"

definition metar_temperature :: "metar_report \<Rightarrow> extras \<Rightarrow> extras" where
  "metar_temperature m extra =
     (case m_temperature m of
        None \<Rightarrow> extra
      | Some (t, dw) \<Rightarrow>
          (let extra = (case t of
                          Some t \<Rightarrow> AList.update ''temp'' (Num (t + 273.15)) extra
                        | None \<Rightarrow> extra)
           in case dw of
                Some dw \<Rightarrow> AList.update ''dew'' (Num (dw + 273.15)) extra
              | None \<Rightarrow> extra))"

definition setWinds_metar ::
  "'c clib \<Rightarrow> wlayer list \<Rightarrow> real \<Rightarrow> 'c weather \<Rightarrow> error + wlayer list \<times> 'c weather" where
  "setWinds_metar C winds elapsed s =
     (case weatherData s of
        None \<Rightarrow> Inl TypeError
      | Some (PStr x) \<Rightarrow> if str_contains ''metar'' x then Inl TypeError else Inr (winds, s)
      | Some (PDict d) \<Rightarrow>
          (case d_metar d of
             None \<Rightarrow> Inr (winds, s)
           | Some m \<Rightarrow>
               (case m_wind m of
                  None \<Rightarrow> Inr (winds, s)
                | Some (hdg, speed, gust) \<Rightarrow>
                    (case m_elevation m of
                       None \<Rightarrow> Inl KeyError
                     | Some elevation \<Rightarrow>
                         (let extra = [(''gust'', Num gust), (''metar'', Bool True)];
                              (hdg, extra, c1) = metar_variable_wind C m hdg extra elapsed (cst s);
                              malt = elevation + metar_agl_limit (conf s);
                              (malt, c2) = c_transition C malt ''0-metar_wind_alt'' elapsed 0.3048 c1;
                              extra = metar_temperature m extra;
                              winds = (if length winds > 1
                                          \<and> l_alt (winds ! 0) < malt + metar_agl_limit (conf s)
                                       then tl winds else winds);
                              (a, h) = alloc extra (heap s)
                          in Inr (\<lparr>l_alt = malt, l_hdg = hdg, l_speed = speed, l_extra = a\<rparr> # winds,
                                  s\<lparr>heap := h, cst := c2\<rparr>))))))"

text \<open>
  "Search current top and bottom layer", the \<open>for i in range(len(winds))\<close> loop on a list
  that starts with \<open>w\<close>, layer \<open>i\<close>: it returns \<open>(blayer, tlayer)\<close>.
\<close>

fun search_layers ::
  "real \<Rightarrow> nat option \<Rightarrow> nat \<Rightarrow> wlayer \<Rightarrow> wlayer list \<Rightarrow> nat option \<times> nat" where
  "search_layers a blayer i w [] =
     (if l_alt w > a then (blayer, i) else (Some i, i))"
| "search_layers a blayer i w (n # rest) =
     (if l_alt w > a then (blayer, i) else search_layers a (Some i) (Suc i) n rest)"

text \<open>
  The middle of \<open>setWinds\<close>, on a list that is not empty: the reset of the transitions on
  a layer change, the transition of the top and the bottom layer, and their interpolation.
  It returns \<open>rwind\<close>.
\<close>

definition setWinds_resolve ::
  "'c clib \<Rightarrow> wlayer list \<Rightarrow> real \<Rightarrow> 'c weather \<Rightarrow> error + wlayer \<times> 'c weather" where
  "setWinds_resolve C winds elapsed s =
     (let (blayer, tlayer) = search_layers (self_alt s) None 0 (hd winds) (tl winds);
          s = (if windAlts s \<noteq> int tlayer
               then s\<lparr>windAlts := int tlayer,
                      cst := c_transitionClearReferences C
                               [str_blayer blayer, str_nat tlayer] (cst s)\<rparr>
               else s);
          (twind, s) = transWindLayer C (winds ! tlayer) (str_nat tlayer) elapsed s
      in case blayer of
           None \<Rightarrow> Inr (twind, s)
         | Some b \<Rightarrow>
             if b \<noteq> tlayer then
               (let (bwind, s) = transWindLayer C (winds ! b) (str_nat b) elapsed s
                in interpolateWindLayer C twind bwind (self_alt s) b s)
             else Inr (twind, s))"

text \<open>
  The end of \<open>setWinds\<close>: the three wind layers of the simulator, then temperature and dew
  point at sea level, from \<open>rwind\<close> or else from the layer above the top layer.
\<close>

definition setWinds_publish ::
  "'c clib \<Rightarrow> wlayer list \<Rightarrow> nat \<Rightarrow> wlayer \<Rightarrow> real \<Rightarrow> 'c weather \<Rightarrow> 'c weather" where
  "setWinds_publish C winds tlayer rwind elapsed s =
     (let s = setWindLayer 2 rwind elapsed (setWindLayer 1 rwind elapsed (setWindLayer 0 rwind elapsed s));
          extra = heap s ! l_extra rwind;
          altLayer = (if length winds > tlayer + 1 then Some (winds ! (tlayer + 1)) else None);
          sea = (\<lambda>key old.
             (case map_of extra key of
                Some v \<Rightarrow> c_oat2msltemp C (num v - 273.15) (self_alt s)
              | None \<Rightarrow>
                  (case altLayer of
                     None \<Rightarrow> old
                   | Some l \<Rightarrow>
                       (case map_of (heap s ! l_extra l) key of
                          Some v \<Rightarrow> c_oat2msltemp C (num v - 273.15) (l_alt l)
                        | None \<Rightarrow> old))))
      in s\<lparr>msltemp := sea ''temp'' (msltemp s),
           msldewp := sea ''dew'' (msldewp s),
           self_winds := map (\<lambda>w. w\<lparr>w_gust_hdg := 0\<rparr>) (take 3 (self_winds s))
                           @ drop 3 (self_winds s)\<rparr>)"

definition setWinds :: "'c clib \<Rightarrow> wlayer list \<Rightarrow> real \<Rightarrow> 'c weather \<Rightarrow> error + 'c weather" where
  "setWinds C winds elapsed s =
     (case setWinds_metar C winds elapsed s of
        Inl e \<Rightarrow> Inl e
      | Inr (winds, s) \<Rightarrow>
          if length winds > 0 then
            (case setWinds_resolve C winds elapsed s of
               Inl e \<Rightarrow> Inl e
             | Inr (rwind, s') \<Rightarrow>
                 Inr (setWinds_publish C winds
                        (snd (search_layers (self_alt s) None 0 (hd winds) (tl winds)))
                        rwind elapsed s'))
          else Inr s)"

section \<open>Clouds: \<open>Weather.setClouds\<close>\<close>

text \<open>
  An assembled cloud layer is the Python list \<open>[base, top, cover]\<close>. The variable \<open>top\<close>
  of the source is \<open>ctop\<close> here, \<open>top\<close> being a constant of HOL.
\<close>

type_synonym cloud = "real \<times> real \<times> cover"

definition xpClouds :: "'c clib \<Rightarrow> (string \<times> real \<times> real) list" where
  "xpClouds C =
     [(''FEW'', 1, c_f2m C 2000), (''SCT'', 2, c_f2m C 4000), (''BKN'', 3, c_f2m C 4000),
      (''OVC'', 4, c_f2m C 4000), (''VV'', 4, c_f2m C 6000)]"

text \<open>
  The body of \<open>for cloud in reversed(clouds)\<close>, on the loop state
  \<open>(lastBase, maxTop, setClouds)\<close>. \<open>if lastBase\<close> and \<open>if not maxTop\<close> test for zero.
\<close>

definition metar_cloud ::
  "'c clib \<Rightarrow> (real \<times> real \<times> real) list \<Rightarrow> real \<Rightarrow> real \<Rightarrow> real \<times> string
     \<Rightarrow> real \<times> real \<times> cloud list \<Rightarrow> real \<times> real \<times> cloud list" where
  "metar_cloud C gfsClouds minCloud maxCloud cloud st =
     (case cloud of (base, cover) \<Rightarrow>
      case st of (lastBase, maxTop, setClouds) \<Rightarrow>
        (let (ctop, cover) =
               (case map_of (xpClouds C) cover of
                  Some (xp, thickness) \<Rightarrow> (base + thickness, XP xp)
                | None \<Rightarrow> (minCloud, Code cover));
             ctop =
               (case find (\<lambda>(gfsBase, gfsTop, gfsCover).
                             gfsBase > 0 \<and> gfsBase - 1500 < base \<and> base < gfsTop) gfsClouds of
                  Some (gfsBase, gfsTop, gfsCover) \<Rightarrow>
                    base + c_limit C (gfsTop - gfsBase) maxCloud (Some minCloud)
                | None \<Rightarrow> ctop);
             ctop = (if lastBase \<noteq> 0 \<and> ctop > lastBase then lastBase else ctop)
         in (base, (if maxTop = 0 then ctop else maxTop), setClouds @ [(base, ctop, cover)])))"

text \<open>The body of the second loop of that branch, \<open>for cloud in gfsClouds\<close>.\<close>

definition add_gfs_cloud ::
  "'c clib \<Rightarrow> real \<Rightarrow> real \<Rightarrow> real \<Rightarrow> real \<Rightarrow> real \<times> real \<times> real \<Rightarrow> cloud list \<Rightarrow> cloud list" where
  "add_gfs_cloud C gfsCloudLimit maxTop minCloud maxCloud cloud setClouds =
     (case cloud of (base, ctop, cover) \<Rightarrow>
        if length setClouds < 3 \<and> base > max gfsCloudLimit maxTop then
          (base, base + c_limit C (ctop - base) maxCloud (Some minCloud), XP (c_cc2xp C cover))
            # setClouds
        else setClouds)"

text \<open>
  The body of the loop of the branch without station report,
  \<open>for cloud in reversed(gfsClouds)\<close>, on the loop state \<open>(lastBase, setClouds)\<close>.
\<close>

definition gfs_cloud ::
  "'c clib \<Rightarrow> real \<Rightarrow> real \<Rightarrow> real \<times> real \<times> real \<Rightarrow> real \<times> cloud list \<Rightarrow> real \<times> cloud list" where
  "gfs_cloud C minCloud maxCloud cloud st =
     (case cloud of (base, ctop, cover) \<Rightarrow>
      case st of (lastBase, setClouds) \<Rightarrow>
        (let cover = c_cc2xp C cover
         in if cover > 0 \<and> base > 0 \<and> ctop > 0 then
              (let ctop = (if cover < 3 then base + minCloud
                          else base + c_limit C (ctop - base) maxCloud (Some minCloud));
                   ctop = (if lastBase > ctop then lastBase else ctop)
               in (base, setClouds @ [(base, ctop, XP cover)]))
            else (lastBase, setClouds)))"

text \<open>
  The first part of \<open>setClouds\<close>, up to the end of the two branches: it returns
  \<open>gfsCloudLimit\<close> and the list \<open>setClouds\<close>, highest layer first.
\<close>

definition setClouds_assemble :: "'c clib \<Rightarrow> 'c weather \<Rightarrow> error + real \<times> cloud list" where
  "setClouds_assemble C s =
     (case weatherData s of
        None \<Rightarrow> Inl TypeError
      | Some (PStr x) \<Rightarrow> Inl TypeError
      | Some (PDict d) \<Rightarrow>
          (case d_gfs d of
             None \<Rightarrow> Inl KeyError
           | Some g \<Rightarrow>
               (let gfsClouds = (case g_clouds g of Some cs \<Rightarrow> cs | None \<Rightarrow> []);
                    minCloud = c_f2m C 2000;
                    maxCloud = c_f2m C (c_limit C 40000 (max_cloud_height (conf s)) None);
                    gfsCloudLimit = c_f2m C 5600
                in case d_metar d of
                     None \<Rightarrow> Inl KeyError
                   | Some m \<Rightarrow>
                       (case (m_distance m, m_clouds m) of
                          (Some distance, Some clouds) \<Rightarrow>
                            if distance < metar_distance_limit (conf s) then
                              (case m_elevation m of
                                 None \<Rightarrow> Inl KeyError
                               | Some elevation \<Rightarrow>
                                   (let gfsCloudLimit = gfsCloudLimit + elevation;
                                        (lastBase, maxTop, setClouds) =
                                          fold (metar_cloud C gfsClouds minCloud maxCloud)
                                            (rev clouds) (0, 0, [])
                                    in Inr (gfsCloudLimit,
                                         fold (add_gfs_cloud C gfsCloudLimit maxTop minCloud maxCloud)
                                           gfsClouds setClouds)))
                            else Inr (gfsCloudLimit,
                                   snd (fold (gfs_cloud C minCloud maxCloud) (rev gfsClouds) (0, [])))
                        | _ \<Rightarrow> Inr (gfsCloudLimit,
                                   snd (fold (gfs_cloud C minCloud maxCloud) (rev gfsClouds) (0, [])))))))"

text \<open>
  "Push up gfs clouds to prevent redraws", on the list with the lowest layer first. The
  second test reads index 2 of a layer, its cover; a cover that is still a station-report
  code is a string, and comparing or adding it to a number raises (in Python 3, for which
  the plugin has its own branches).
\<close>

definition push_up :: "real \<Rightarrow> real \<Rightarrow> cloud list \<Rightarrow> error + cloud list" where
  "push_up gfsCloudLimit minCloud setClouds =
     (if setClouds \<noteq> [] then
        (let setClouds =
               (if length setClouds < 3 \<and> fst (setClouds ! 0) > gfsCloudLimit
                then (0, minCloud, XP 0) # setClouds else setClouds)
         in if 1 < length setClouds \<and> length setClouds < 3 then
              (case snd (snd (setClouds ! 1)) of
                 Code x \<Rightarrow> Inl TypeError
               | XP cover1 \<Rightarrow>
                   if cover1 > gfsCloudLimit then
                     (case snd (snd (setClouds ! 0)) of
                        Code x \<Rightarrow> Inl TypeError
                      | XP cover0 \<Rightarrow>
                          Inr [setClouds ! 0, (cover0, cover0 + minCloud, XP 0), setClouds ! 1])
                   else Inr setClouds)
            else Inr setClouds)
      else Inr setClouds)"

definition setDrefIfDiff :: "real \<Rightarrow> real \<Rightarrow> real option \<Rightarrow> real \<times> bool" where
  "setDrefIfDiff dref v max_diff =
     (case max_diff of
        Some d \<Rightarrow> if \<bar>dref - v\<bar> > d then (v, True) else (dref, False)
      | None \<Rightarrow> if dref \<noteq> v then (v, True) else (dref, False))"

text \<open>
  One round of \<open>for i in range(3)\<close>: the simulator's layer \<open>i\<close> is written when the change
  exceeds the redraw threshold. The counter \<open>redraw\<close> is never read and is left out.
\<close>

definition write_cloud :: "'c clib \<Rightarrow> real \<Rightarrow> cloud list \<Rightarrow> nat \<Rightarrow> cloud_dref \<Rightarrow> error + cloud_dref" where
  "write_cloud C a setClouds i dref =
     (let minRedraw = [c_f2m C 500, c_f2m C 5000, c_f2m C 10000]
      in if length setClouds > i then
           (case setClouds ! i of (base, ctop, cover) \<Rightarrow>
              (case cover of
                 Code x \<Rightarrow> Inl TypeError
               | XP cov \<Rightarrow>
                   Inr (dref\<lparr>
                     cl_bottom := fst (setDrefIfDiff (cl_bottom dref) base (Some (minRedraw ! i + a / 10))),
                     cl_top := fst (setDrefIfDiff (cl_top dref) ctop (Some (minRedraw ! i + a / 10))),
                     cl_coverage := fst (setDrefIfDiff (cl_coverage dref) cov (Some 1))\<rparr>)))
         else Inr (dref\<lparr>cl_coverage := fst (setDrefIfDiff (cl_coverage dref) 0 None)\<rparr>))"

fun write_clouds :: "'c clib \<Rightarrow> real \<Rightarrow> cloud list \<Rightarrow> nat \<Rightarrow> cloud_dref list \<Rightarrow> error + cloud_dref list" where
  "write_clouds C a setClouds i [] = Inr []"
| "write_clouds C a setClouds i (dref # drefs) =
     (case write_cloud C a setClouds i dref of
        Inl e \<Rightarrow> Inl e
      | Inr dref' \<Rightarrow>
          (case write_clouds C a setClouds (Suc i) drefs of
             Inl e \<Rightarrow> Inl e
           | Inr drefs' \<Rightarrow> Inr (dref' # drefs')))"

definition setClouds :: "'c clib \<Rightarrow> 'c weather \<Rightarrow> error + 'c weather" where
  "setClouds C s =
     (case setClouds_assemble C s of
        Inl e \<Rightarrow> Inl e
      | Inr (gfsCloudLimit, setClouds) \<Rightarrow>
          (case push_up gfsCloudLimit (c_f2m C 2000) (rev setClouds) of
             Inl e \<Rightarrow> Inl e
           | Inr setClouds \<Rightarrow>
               (case (if override_clouds s = 0
                      then write_clouds C (self_alt s) setClouds 0 (self_clouds s)
                      else Inr (self_clouds s)) of
                  Inl e \<Rightarrow> Inl e
                | Inr drefs \<Rightarrow>
                    Inr (s\<lparr>self_clouds := drefs,
                           data_cloud_base := map fst setClouds,
                           data_cloud_top := map (\<lambda>c. fst (snd c)) setClouds,
                           data_cloud_cover := map (\<lambda>c. snd (snd c)) setClouds\<rparr>))))"

text \<open>
  Layers given lowest first do not overlap when the top of each is at most the base of
  the next.
\<close>

fun no_overlap :: "(real \<times> real) list \<Rightarrow> bool" where
  "no_overlap (a # b # rest) = (snd a \<le> fst b \<and> no_overlap (b # rest))"
| "no_overlap rest = True"

section \<open>An instance of the helper module\<close>

text \<open>
  Modelled from the spec: the transition engine of \<open>noaweather/c.py\<close>, which is not among
  the sources. The spec (4.1): on the first call for a key \<open>transition\<close> returns the value
  and records it; afterwards it moves the stored value toward the value by at most
  \<open>rate * elapsed\<close>, returns the moved value and stores it. \<open>transitionHdg\<close> does the same
  on the circle of 360 degrees, along the shorter arc. The table \<open>c.transrefs\<close> is an
  association list from keys to the last value.
\<close>

type_synonym transrefs = "(string \<times> real) list"

definition transition :: "real \<Rightarrow> string \<Rightarrow> real \<Rightarrow> real \<Rightarrow> transrefs \<Rightarrow> real \<times> transrefs" where
  "transition v key elapsed rate refs =
     (case map_of refs key of
        None \<Rightarrow> (v, AList.update key v refs)
      | Some cur \<Rightarrow>
          (let step = rate * elapsed;
               new = (if \<bar>v - cur\<bar> \<le> step then v
                      else if cur < v then cur + step else cur - step)
           in (new, AList.update key new refs)))"

text \<open>
  Modelled from the spec: \<open>c.transitionHdg\<close>, absent with \<open>noaweather/c.py\<close>. It
  "behaves identically but measures angular distance on a circle of period 360 and always
  takes the shorter arc".
\<close>

definition transitionHdg :: "real \<Rightarrow> string \<Rightarrow> real \<Rightarrow> real \<Rightarrow> transrefs \<Rightarrow> real \<times> transrefs" where
  "transitionHdg v key elapsed rate refs =
     (case map_of refs key of
        None \<Rightarrow> (v, AList.update key v refs)
      | Some cur \<Rightarrow>
          (let step = rate * elapsed;
               arc = pymod (v - cur + 180) 360 - 180;
               new = (if \<bar>arc\<bar> \<le> step then v
                      else if 0 < arc then pymod (cur + step) 360 else pymod (cur - step) 360)
           in (new, AList.update key new refs)))"

text \<open>
  Modelled from the spec: \<open>c.transitionClearReferences(exclude=...)\<close>, "clears all state
  for keys not in a caller-supplied exclusion set", used "so stale transitions for layers
  no longer in view do not leak into new layers". The callers build a key as layer index,
  \<open>-\<close>, variable name, and exclude layer indices: a key is kept when the index before its
  first \<open>-\<close> is excluded.
\<close>

definition key_id :: "string \<Rightarrow> string" where
  "key_id k = takeWhile (\<lambda>c. c \<noteq> CHR ''-'') k"

text \<open>
  Modelled from the spec: \<open>c.transitionClearReferences\<close> with its argument \<open>exclude\<close>,
  absent with \<open>noaweather/c.py\<close>, on the reading above.
\<close>

definition transitionClearReferences :: "string list \<Rightarrow> transrefs \<Rightarrow> transrefs" where
  "transitionClearReferences exclude refs = filter (\<lambda>kv. key_id (fst kv) \<in> set exclude) refs"

text \<open>
  Modelled from the spec: \<open>c.interpolate\<close>, absent with \<open>noaweather/c.py\<close>, "linear
  interpolation weighted by altitude position between bottom and top". Between layers of
  one altitude, where the spec is silent, it returns the first value.
\<close>

definition interpolate :: "real \<Rightarrow> real \<Rightarrow> real \<Rightarrow> real \<Rightarrow> real \<Rightarrow> real" where
  "interpolate t1 t2 alt1 alt2 a =
     (if alt2 = alt1 then t1 else t1 + (a - alt1) * (t2 - t1) / (alt2 - alt1))"

text \<open>
  Modelled from the spec: \<open>c.limit\<close>, absent with \<open>noaweather/c.py\<close>: a value is "clipped
  to [min,max]", the minimum being optional.
\<close>

definition limit :: "real \<Rightarrow> real \<Rightarrow> real option \<Rightarrow> real" where
  "limit v mx mn = (case mn of None \<Rightarrow> min v mx | Some m \<Rightarrow> max m (min v mx))"

text \<open>
  Modelled from the spec: \<open>c.f2m\<close>, absent with \<open>noaweather/c.py\<close>, feet to metres; the
  factor is the one \<open>setWinds\<close> writes out for one foot per second.
\<close>

definition f2m :: "real \<Rightarrow> real" where
  "f2m x = x * 0.3048"

text \<open>
  \<open>Weather.cc2xp\<close> of the plugin (the callers use the copy \<open>c.cc2xp\<close> of the helper
  module): cloud cover in percent to the simulator's scale 0 to 4.
\<close>

definition cc2xp :: "real \<Rightarrow> real" where
  "cc2xp cover =
     (let xp = cover / 100 * 4
      in if xp < 1 \<and> cover > 0 then 1 else if cover > 89 then 4 else xp)"

text \<open>
  An instance that shows what the plugin hands to the helper module. The transition engine,
  the linear interpolation, the clipping and the conversions are the ones above; the other
  helpers are probes that hand back one of their arguments: \<open>randPattern\<close> returns the
  value it is given, the heading blend returns its exponent, the scalar blend its exponent
  when there is one (its first value otherwise), the lapse-rate projection its temperature.
  The theorems below that are stated for a helper module \<open>C\<close> hold for every instance;
  those stated for \<open>C_probe\<close> are about one concrete run, or, for the reset of the
  transitions, about the transition engine above.
\<close>

definition C_probe :: "transrefs clib" where
  "C_probe = \<lparr>
     c_transition = transition,
     c_transitionHdg = transitionHdg,
     c_transitionClearReferences = transitionClearReferences,
     c_randPattern = (\<lambda>ident v elapsed p4 min_time max_time refs. (v, refs)),
     c_interpolate = interpolate,
     c_expoCosineInterpolate = (\<lambda>t1 t2 alt1 alt2 a expo. (case expo of None \<Rightarrow> t1 | Some e \<Rightarrow> e)),
     c_expoCosineInterpolateHeading = (\<lambda>h1 h2 alt1 alt2 a expo. expo),
     c_oat2msltemp = (\<lambda>t a. t),
     c_limit = limit,
     c_f2m = f2m,
     c_cc2xp = cc2xp\<rparr>"

text \<open>
  Modelled from the spec: the weight of the exponential-cosine blends of \<open>noaweather/c.py\<close>,
  which is not among the sources. The spec (4.2) names the blend an "exponential-cosine-weighted
  interpolation", one that "blends smoothly without overshooting past either endpoint": the
  position between the two altitudes, eased by a half cosine wave from 0 to 1, raised to the
  exponent.
\<close>

definition expo_weight :: "real \<Rightarrow> real \<Rightarrow> real \<Rightarrow> real \<Rightarrow> real" where
  "expo_weight alt1 alt2 a expo = ((1 - cos (pi * ((a - alt1) / (alt2 - alt1)))) / 2) powr expo"

text \<open>
  Modelled from the spec: \<open>c.expoCosineInterpolate\<close>, absent with \<open>noaweather/c.py\<close>, the
  blend of two scalars with the weight above; without an exponent the weight is the plain
  cosine ease. Between layers of one altitude it returns the first value.
\<close>

definition expoCosineInterpolate ::
  "real \<Rightarrow> real \<Rightarrow> real \<Rightarrow> real \<Rightarrow> real \<Rightarrow> real option \<Rightarrow> real" where
  "expoCosineInterpolate t1 t2 alt1 alt2 a expo =
     (if alt1 = alt2 then t1
      else t1 + (t2 - t1) * expo_weight alt1 alt2 a (case expo of None \<Rightarrow> 1 | Some e \<Rightarrow> e))"

text \<open>
  Modelled from the spec: the signed shorter arc from the heading \<open>h1\<close> to the heading \<open>h2\<close>
  (4.1: headings are measured "on a circle of period 360" along "the shorter arc"), absent
  with \<open>noaweather/c.py\<close>.
\<close>

definition shortHdg :: "real \<Rightarrow> real \<Rightarrow> real" where
  "shortHdg h1 h2 = (let d = pymod (h2 - h1) 360 in if d > 180 then d - 360 else d)"

text \<open>
  Modelled from the spec: \<open>c.expoCosineInterpolateHeading\<close>, absent with
  \<open>noaweather/c.py\<close>, the blend of two headings: from the first heading along the shorter
  arc, by the weight above.
\<close>

definition expoCosineInterpolateHeading ::
  "real \<Rightarrow> real \<Rightarrow> real \<Rightarrow> real \<Rightarrow> real \<Rightarrow> real \<Rightarrow> real" where
  "expoCosineInterpolateHeading h1 h2 alt1 alt2 a expo =
     (if alt1 = alt2 then h1
      else pymod (h1 + shortHdg h1 h2 * expo_weight alt1 alt2 a expo) 360)"

text \<open>
  The instance with the two blends above in the place of the probes: the one the scenario
  of the spec is run on.
\<close>

definition C_spec :: "transrefs clib" where
  "C_spec = C_probe\<lparr>c_expoCosineInterpolate := expoCosineInterpolate,
                     c_expoCosineInterpolateHeading := expoCosineInterpolateHeading\<rparr>"

section \<open>Frame conditions\<close>





text \<open>
  \<open>keys_step ident refs refs'\<close>: from the transition table \<open>refs\<close> to \<open>refs'\<close> no key was
  removed, and every new key belongs to the layer index \<open>ident\<close>.
\<close>

definition keys_step :: "string \<Rightarrow> transrefs \<Rightarrow> transrefs \<Rightarrow> bool" where
  "keys_step ident refs refs' =
     (fst ` set refs \<subseteq> fst ` set refs' \<and>
      (\<forall>k \<in> fst ` set refs'. k \<in> fst ` set refs \<or> key_id k = ident))"

section \<open>Concrete states\<close>

definition conf0 :: conf where
  "conf0 = \<lparr>metar_agl_limit = 300, metar_distance_limit = 100000, windHdgTransSpeed = 1,
     windGustTransSpeed = 1, turbulence_probability = 1, max_cloud_height = 40000\<rparr>"

definition wind_dref0 :: wind_dref where
  "wind_dref0 = \<lparr>w_hdg = 0, w_speed = 0, w_gust = 0, w_gust_hdg = 0, w_turbulence = 0\<rparr>"

definition cloud_dref0 :: cloud_dref where
  "cloud_dref0 = \<lparr>cl_top = 0, cl_bottom = 0, cl_coverage = 0\<rparr>"

text \<open>The plugin after \<open>__init__\<close>, at altitude \<open>a\<close>, with an empty transition table.\<close>

definition weather0 :: "real \<Rightarrow> transrefs weather" where
  "weather0 a = \<lparr>self_alt = a, conf = conf0, weatherData = None, newData = False,
     queryResponses = [], die = False, windAlts = - 1,
     self_winds = [wind_dref0, wind_dref0, wind_dref0],
     self_clouds = [cloud_dref0, cloud_dref0, cloud_dref0],
     msltemp = 0, msldewp = 0, override_clouds = 0,
     data_cloud_base = [], data_cloud_top = [], data_cloud_cover = [],
     heap = [], cst = []\<rparr>"

definition wdict0 :: wdict where
  "wdict0 = \<lparr>d_info = Some (12.3, -5.6), d_gfs = None, d_metar = None\<rparr>"

definition metar_none :: metar_report where
  "metar_none = \<lparr>m_elevation = None, m_distance = None, m_wind = None,
     m_variable_wind = None, m_temperature = None, m_clouds = None\<rparr>"

text \<open>
  The two wind layers of the scenario of the spec, \<open>{alt:0, hdg:0, speed:5}\<close> and
  \<open>{alt:1000, hdg:90, speed:15}\<close>, their \<open>extra\<close> dictionaries at the addresses 0 and 1.
\<close>

definition two_layers :: "wlayer list" where
  "two_layers = [\<lparr>l_alt = 0, l_hdg = 0, l_speed = 5, l_extra = 0\<rparr>,
                 \<lparr>l_alt = 1000, l_hdg = 90, l_speed = 15, l_extra = 1\<rparr>]"

text \<open>
  A snapshot as the server builds it when no station is near: forecast data, an empty
  station report. Its two forecast cloud bands do not overlap.
\<close>

definition wdict_gfs :: wdict where
  "wdict_gfs = \<lparr>d_info = Some (12.3, -5.6),
     d_gfs = Some \<lparr>g_winds = Some two_layers,
               g_clouds = Some [(1000, 1100, 50), (1300, 1400, 50)]\<rparr>,
     d_metar = Some metar_none\<rparr>"

text \<open>
  The scenario of the spec: the plugin at altitude \<open>a\<close> holding the snapshot above, the
  two dictionaries empty.
\<close>

definition scenario :: "real \<Rightarrow> transrefs weather" where
  "scenario a = (weather0 a)\<lparr>weatherData := Some (PDict wdict_gfs), heap := [[], []]\<rparr>"

text \<open>The two layers of the scenario in calm air.\<close>

definition calm_layers :: "wlayer list" where
  "calm_layers = [\<lparr>l_alt = 0, l_hdg = 0, l_speed = 0, l_extra = 0\<rparr>,
                  \<lparr>l_alt = 1000, l_hdg = 90, l_speed = 0, l_extra = 1\<rparr>]"

text \<open>Two layers whose speeds are opposite numbers.\<close>

definition opposite_layers :: "wlayer list" where
  "opposite_layers = [\<lparr>l_alt = 0, l_hdg = 0, l_speed = - 5, l_extra = 0\<rparr>,
                      \<lparr>l_alt = 1000, l_hdg = 90, l_speed = 5, l_extra = 1\<rparr>]"

text \<open>
  The same plugin holding a snapshot with a station report: wind from 270 degrees at 10
  knots, the station at the given elevation and distance.
\<close>

definition station_metar :: "real \<Rightarrow> real \<Rightarrow> metar_report" where
  "station_metar elevation distance =
     metar_none\<lparr>m_elevation := Some elevation, m_distance := Some distance,
       m_wind := Some (270, 10, 0)\<rparr>"

definition station_dict :: "real \<Rightarrow> real \<Rightarrow> wdict" where
  "station_dict elevation distance =
     wdict_gfs\<lparr>d_metar := Some (station_metar elevation distance)\<rparr>"

definition with_station :: "real \<Rightarrow> real \<Rightarrow> real \<Rightarrow> transrefs weather" where
  "with_station elevation distance a =
     (scenario a)\<lparr>weatherData := Some (PDict (station_dict elevation distance))\<rparr>"

text \<open>
  The plugin after one call of \<open>setWinds\<close> in the scenario at altitude 500, climbed to
  1500, above both layers.
\<close>

definition after_first_call :: "transrefs weather" where
  "after_first_call =
     (case setWinds C_probe two_layers 1 (scenario 500) of
        Inr s \<Rightarrow> s\<lparr>self_alt := 1500\<rparr>
      | Inl e \<Rightarrow> scenario 1500)"

text \<open>
  Three forecast layers, at 0, 1000 and 2000, the middle one with the given speed, their
  \<open>extra\<close> dictionaries at the addresses 0, 1 and 2.
\<close>

definition three_layers :: "real \<Rightarrow> wlayer list" where
  "three_layers speed1 = [\<lparr>l_alt = 0, l_hdg = 0, l_speed = 5, l_extra = 0\<rparr>,
                   \<lparr>l_alt = 1000, l_hdg = 90, l_speed = speed1, l_extra = 1\<rparr>,
                   \<lparr>l_alt = 2000, l_hdg = 180, l_speed = 25, l_extra = 2\<rparr>]"

text \<open>
  The plugin after one call of \<open>setWinds\<close> on these layers at altitude 1500, between the
  layers 1 and 2, descended to 500, between the layers 0 and 1.
\<close>

definition descended :: "transrefs weather" where
  "descended =
     (case setWinds C_probe (three_layers 15) 1 ((scenario 1500)\<lparr>heap := [[], [], []]\<rparr>) of
        Inr s \<Rightarrow> s\<lparr>self_alt := 500\<rparr>
      | Inl e \<Rightarrow> scenario 500)"



section \<open>Results: the server\<close>

text \<open>
  C8. On the datagram \<open>!resetMetar\<close> the handler matches none of its commands, takes the
  final \<open>else: return\<close> and does nothing at all: it sends no response, but it does not
  touch the station-report source either, whatever the collaborators are.
\<close>

theorem handle_resetMetar_does_nothing:
  "handle getWeatherData getMetar getsizeof ''!resetMetar'' = Inr []"
  by (simp add: handle_def strip_def strip_set_def)

section \<open>Results: the client thread\<close>


text \<open>
  C5, as stated, fails on the termination marker: the string \<open>!bye\<close> lacks \<open>info\<close>, yet
  the loop breaks on it, the state is as before, and the response queue stays empty.
\<close>

theorem weatherClient_step_bye_counterexample:
  "\<not> has_info (PStr ''!bye'') \<and>
   weatherClient_step (PStr ''!bye'') (weather0 0) = Break (weather0 0) \<and>
   queryResponses (weather0 0) = [] \<and>
   queryResponses (weatherClient [PStr ''!bye''] (weather0 0)) = []"
  by (simp add: weatherClient_step_def weather0_def)

text \<open>
  C5, amended. When the \<open>die\<close> event is set or the payload is the termination marker, the
  loop breaks: the state stays as it is, nothing is stored or appended, and no later
  payload is looked at. Otherwise a payload with \<open>info\<close> replaces the snapshot and sets
  the dirty flag, leaving the queue as it is, and a payload without \<open>info\<close> is appended
  to the queue, leaving snapshot and dirty flag as they are.
\<close>

theorem weatherClient_step_dispatch:
  "(die s \<or> wdata = PStr ''!bye'' \<longrightarrow>
      weatherClient_step wdata s = Break s \<and> weatherClient (wdata # rest) s = s) \<and>
   (\<not> die s \<and> wdata \<noteq> PStr ''!bye'' \<and> has_info wdata \<longrightarrow>
      weatherClient_step wdata s = Continue (s\<lparr>weatherData := Some wdata, newData := True\<rparr>)) \<and>
   (\<not> die s \<and> wdata \<noteq> PStr ''!bye'' \<and> \<not> has_info wdata \<longrightarrow>
      weatherClient_step wdata s
        = Continue (s\<lparr>queryResponses := queryResponses s @ [wdata]\<rparr>))"
  by (simp add: weatherClient_step_def)

theorem weatherClient_step_dispatch_witness:
  "weatherClient_step (PStr ''!bye'') (weather0 0) = Break (weather0 0) \<and>
   weatherClient [PStr ''!bye'', PDict wdict0] (weather0 0) = weather0 0 \<and>
   die ((weather0 0)\<lparr>die := True\<rparr>) \<and>
   weatherClient_step (PDict wdict0) ((weather0 0)\<lparr>die := True\<rparr>)
     = Break ((weather0 0)\<lparr>die := True\<rparr>) \<and>
   \<not> die (weather0 0) \<and> PDict wdict0 \<noteq> PStr ''!bye'' \<and> has_info (PDict wdict0) \<and>
   weatherClient_step (PDict wdict0) (weather0 0)
     = Continue ((weather0 0)\<lparr>weatherData := Some (PDict wdict0), newData := True\<rparr>) \<and>
   \<not> has_info (PDict (wdict0\<lparr>d_info := None\<rparr>)) \<and>
   weatherClient_step (PDict (wdict0\<lparr>d_info := None\<rparr>)) (weather0 0)
     = Continue ((weather0 0)\<lparr>queryResponses := [PDict (wdict0\<lparr>d_info := None\<rparr>)]\<rparr>)"
proof -
  have d: "\<not> die (weather0 0)" "queryResponses (weather0 0) = []"
    "die ((weather0 0)\<lparr>die := True\<rparr>)"
    by (simp_all add: weather0_def)
  have p: "PDict wdict0 \<noteq> PStr ''!bye''" "has_info (PDict wdict0)"
    "PDict (wdict0\<lparr>d_info := None\<rparr>) \<noteq> PStr ''!bye''"
    "\<not> has_info (PDict (wdict0\<lparr>d_info := None\<rparr>))"
    by (simp_all add: wdict0_def)
  from weatherClient_step_dispatch [of "weather0 0" "PStr ''!bye''" "[PDict wdict0]"]
    weatherClient_step_dispatch [of "(weather0 0)\<lparr>die := True\<rparr>" "PDict wdict0" "[]"]
    weatherClient_step_dispatch [of "weather0 0" "PDict wdict0" "[]"]
    weatherClient_step_dispatch [of "weather0 0" "PDict (wdict0\<lparr>d_info := None\<rparr>)" "[]"]
    d p
  show ?thesis by simp
qed

section \<open>Results: turbulence\<close>

text \<open>
  C7, as stated, fails: with the single band \<open>(1000, 5)\<close> and probability factor 1 the
  value fed to the pattern and written to the three turbulence outputs is 0, not 5.
\<close>

theorem setTurbulence_single_band_counterexample:
  "turb_value C_probe (self_alt (weather0 2000)) [(1000, 5)] = 0 \<and>
   map w_turbulence (self_winds (setTurbulence C_probe [(1000, 5)] 1 (weather0 2000)))
     = [0, 0, 0] \<and>
   (0 :: real) \<noteq> 5 * turbulence_probability (conf (weather0 2000))"
  by (simp add: setTurbulence_def turb_value_def C_probe_def weather0_def conf0_def)

text \<open>
  C7, amended. For a band list with exactly one band, \<open>setTurbulence\<close> feeds the value 0
  to the pattern, whatever the band's severity, the altitude and the probability factor,
  and writes the pattern's result to the three turbulence outputs: the guard
  \<open>len(turbulence) > 1\<close> skips the search.
\<close>

theorem setTurbulence_single_band:
  "setTurbulence C [band] elapsed s =
     s\<lparr>self_winds :=
          map (\<lambda>w. w\<lparr>w_turbulence :=
                 fst (c_randPattern C ''turbulence'' 0 elapsed (Some 20) (Some 1) None (cst s))\<rparr>)
            (take 3 (self_winds s)) @ drop 3 (self_winds s),
       cst := snd (c_randPattern C ''turbulence'' 0 elapsed (Some 20) (Some 1) None (cst s))\<rparr>"
  by (simp add: setTurbulence_def turb_value_def split: prod.split)

section \<open>Results: clouds\<close>

text \<open>
  The branch with a station report does cap: after a layer with a base other than 0, the
  next layer it appends has its top at or below that base.
\<close>

lemma metar_cloud_caps:
  assumes "lastBase \<noteq> 0"
    and "metar_cloud C gfsClouds minCloud maxCloud (base, cover) (lastBase, maxTop, cs)
           = (lastBase', maxTop', cs')"
  shows "\<exists>ctop cov. cs' = cs @ [(base, ctop, cov)] \<and> ctop \<le> lastBase \<and> lastBase' = base"
  using assms
  by (auto simp add: metar_cloud_def Let_def split: option.splits prod.splits if_splits)

text \<open>
  C6. The branch without station report does not cap a layer's top at the base of the
  layer above: its test \<open>if lastBase > top: top = lastBase\<close> only ever raises a top. From
  the forecast bands \<open>(1000, 1100)\<close> and \<open>(1300, 1400)\<close>, both 50 percent covered and apart
  from each other, \<open>setClouds\<close> publishes a lower layer from 1000 to 1609.6 under an upper
  layer that starts at 1300: the two overlap.
\<close>

theorem setClouds_forecast_only_overlap:
  "map_sum (\<lambda>e. e) (\<lambda>s. zip (data_cloud_base s) (data_cloud_top s))
     (setClouds C_probe (scenario 0)) = Inr [(1000, 1609.6), (1300, 1909.6)] \<and>
   \<not> no_overlap [(1000, 1609.6), (1300, 1909.6)]"
  by code_simp

section \<open>Results: the interpolation exponent\<close>

lemma heading_expo_cases:
  "heading_expo wlayer1 wlayer2 =
     (if l_speed wlayer1 = 0 \<and> l_speed wlayer2 = 0 then Inr 1
      else if l_speed wlayer1 + l_speed wlayer2 = 0 then Inl ZeroDivisionError
      else Inr (2 * l_speed wlayer1 / (l_speed wlayer1 + l_speed wlayer2)))"
  by (auto simp add: heading_expo_def py_div_def)

text \<open>
  C10, as stated, fails: not for every pair of layers. With the speeds 5 and -5 the guard
  \<open>wlayer1[2] != 0 or wlayer2[2] != 0\<close> lets the division through and the divisor is 0:
  \<open>interpolateWindLayer\<close> raises \<open>ZeroDivisionError\<close>.
\<close>

theorem interpolateWindLayer_opposite_speeds_counterexample:
  "l_speed (opposite_layers ! 1) = 5 \<and> l_speed (opposite_layers ! 0) = - 5 \<and>
   heading_expo (opposite_layers ! 1) (opposite_layers ! 0) = Inl ZeroDivisionError \<and>
   interpolateWindLayer C_probe (opposite_layers ! 1) (opposite_layers ! 0) 500 0 (scenario 500)
     = Inl ZeroDivisionError"
  by (simp add: opposite_layers_def heading_expo_def py_div_def interpolateWindLayer_def
      alloc_def)

text \<open>
  C10, amended. The division is evaluated with a zero divisor exactly when the first speed
  is not 0 and the two speeds add up to 0, that is for opposite speeds other than 0. When
  both speeds are 0 the exponent is 1; when the speeds do not add up to 0 it is
  \<open>2 * s1 / (s1 + s2)\<close>. So for speeds that are not negative, as wind speeds are, the
  exponent is defined and \<open>interpolateWindLayer\<close> returns a layer; for every helper
  module it returns a layer exactly when the two altitudes are equal, or the first speed is
  0, or the speeds do not add up to 0.
\<close>

theorem interpolateWindLayer_total:
  "(heading_expo wlayer1 wlayer2 = Inl ZeroDivisionError \<longleftrightarrow>
      l_speed wlayer1 \<noteq> 0 \<and> l_speed wlayer1 + l_speed wlayer2 = 0) \<and>
   (l_speed wlayer1 = 0 \<and> l_speed wlayer2 = 0 \<longrightarrow> heading_expo wlayer1 wlayer2 = Inr 1) \<and>
   (l_speed wlayer1 + l_speed wlayer2 \<noteq> 0 \<longrightarrow>
      heading_expo wlayer1 wlayer2
        = Inr (2 * l_speed wlayer1 / (l_speed wlayer1 + l_speed wlayer2))) \<and>
   (0 \<le> l_speed wlayer1 \<and> 0 \<le> l_speed wlayer2 \<longrightarrow>
      (\<exists>expo. heading_expo wlayer1 wlayer2 = Inr expo) \<and>
      (\<exists>r. interpolateWindLayer C wlayer1 wlayer2 a nlayer s = Inr r)) \<and>
   ((\<exists>r. interpolateWindLayer C wlayer1 wlayer2 a nlayer s = Inr r) \<longleftrightarrow>
      l_alt wlayer1 = l_alt wlayer2
      \<or> l_speed wlayer1 = 0 \<or> l_speed wlayer1 + l_speed wlayer2 \<noteq> 0)"
proof -
  have pos: "l_speed wlayer1 + l_speed wlayer2 \<noteq> 0 \<or> (l_speed wlayer1 = 0 \<and> l_speed wlayer2 = 0)"
    if "0 \<le> l_speed wlayer1" "0 \<le> l_speed wlayer2"
    using that by linarith
  have ret: "(\<exists>r. interpolateWindLayer C wlayer1 wlayer2 a nlayer s = Inr r) \<longleftrightarrow>
      l_alt wlayer1 = l_alt wlayer2 \<or> (\<exists>expo. heading_expo wlayer1 wlayer2 = Inr expo)"
    by (auto simp add: interpolateWindLayer_def alloc_def Let_def split: sum.splits)
  show ?thesis
    unfolding ret using pos by (auto simp add: heading_expo_cases)
qed

theorem interpolateWindLayer_total_witness:
  "0 \<le> l_speed (two_layers ! 1) \<and> 0 \<le> l_speed (two_layers ! 0) \<and>
   l_speed (two_layers ! 1) + l_speed (two_layers ! 0) \<noteq> 0 \<and>
   heading_expo (two_layers ! 1) (two_layers ! 0) = Inr (3 / 2) \<and>
   (\<exists>r. interpolateWindLayer C_probe (two_layers ! 1) (two_layers ! 0) 500 0 (scenario 500) = Inr r) \<and>
   l_speed (calm_layers ! 1) = 0 \<and> l_speed (calm_layers ! 0) = 0 \<and>
   heading_expo (calm_layers ! 1) (calm_layers ! 0) = Inr 1 \<and>
   (\<exists>r. interpolateWindLayer C_probe (calm_layers ! 1) (calm_layers ! 0) 500 0 (scenario 500) = Inr r)"
proof -
  have t: "l_speed (two_layers ! 1) = 15" "l_speed (two_layers ! 0) = 5"
    by (simp_all add: two_layers_def)
  have z: "l_speed (calm_layers ! 1) = 0" "l_speed (calm_layers ! 0) = 0"
    by (simp_all add: calm_layers_def)
  from interpolateWindLayer_total [of "two_layers ! 1" "two_layers ! 0" C_probe 500 0 "scenario 500"]
    interpolateWindLayer_total [of "calm_layers ! 1" "calm_layers ! 0" C_probe 500 0 "scenario 500"]
    t z
  show ?thesis by simp
qed


lemma interpolateWindLayer_heading:
  assumes "l_alt wlayer1 \<noteq> l_alt wlayer2" and "heading_expo wlayer1 wlayer2 = Inr expo"
  shows "\<exists>r s'. interpolateWindLayer C wlayer1 wlayer2 a nlayer s = Inr (r, s') \<and>
           l_alt r = a \<and>
           l_hdg r = c_expoCosineInterpolateHeading C (l_hdg wlayer1) (l_hdg wlayer2)
                       (l_alt wlayer1) (l_alt wlayer2) a expo \<and>
           l_speed r = (if nlayer \<noteq> 0
                        then c_interpolate C (l_speed wlayer1) (l_speed wlayer2)
                               (l_alt wlayer1) (l_alt wlayer2) a
                        else c_expoCosineInterpolate C (l_speed wlayer1) (l_speed wlayer2)
                               (l_alt wlayer1) (l_alt wlayer2) a (Some expo))"
  using assms by (simp add: interpolateWindLayer_def alloc_def Let_def)

lemma transWindLayer_alt:
  "transWindLayer C w ident elapsed s = (w', s') \<Longrightarrow> l_alt w' = l_alt w \<and> l_extra w' = l_extra w"
  by (auto simp add: transWindLayer_def Let_def split: prod.splits if_splits)

lemma trans_extra_self_alt: "self_alt (trans_extra C ident elapsed x var s) = self_alt s"
  by (simp add: trans_extra_def Let_def split: option.split prod.split)

lemma transWindLayer_self_alt:
  "transWindLayer C w ident elapsed s = (w', s') \<Longrightarrow> self_alt s' = self_alt s"
  by (auto simp add: transWindLayer_def Let_def trans_extra_self_alt split: prod.splits if_splits)

lemma scenario_weight: "expo_weight 1000 0 500 (3 / 2) = (1 / 2) powr (3 / 2)"
  by (simp add: expo_weight_def)

lemma half_powr: "0 < (1 / 2 :: real) powr (3 / 2) \<and> (1 / 2 :: real) powr (3 / 2) < 1"
proof -
  have "(1 / 2 :: real) powr (3 / 2) < 1 powr (3 / 2)"
    by (rule powr_less_mono2) simp_all
  then show ?thesis by simp
qed

lemma pymod_id: "0 \<le> x \<Longrightarrow> x < m \<Longrightarrow> pymod x m = x"
proof -
  assume "0 \<le> x" "x < m"
  then have "\<lfloor>x / m\<rfloor> = 0" by (simp add: floor_eq_iff)
  then show ?thesis by (simp add: pymod_def)
qed

lemma scenario_heading:
  "expoCosineInterpolateHeading 90 0 1000 0 500 (3 / 2) = 90 - 90 * (1 / 2) powr (3 / 2)"
proof -
  have "pymod (0 - 90) 360 = 270" by (simp add: pymod_def) 
  then have s: "shortHdg 90 0 = - 90" by (simp add: shortHdg_def Let_def)
  have "0 < 90 * (1 / 2 :: real) powr (3 / 2)" "90 * (1 / 2 :: real) powr (3 / 2) < 90"
    using half_powr by simp_all
  then have "pymod (90 - 90 * (1 / 2) powr (3 / 2)) 360 = 90 - 90 * (1 / 2) powr (3 / 2)"
    by (intro pymod_id) linarith+
  then show ?thesis
    by (simp add: expoCosineInterpolateHeading_def s scenario_weight)
qed

lemma scenario_speed:
  "expoCosineInterpolate 15 5 1000 0 500 (Some (3 / 2)) = 15 - 10 * (1 / 2) powr (3 / 2)"
  by (simp add: expoCosineInterpolate_def scenario_weight)

lemma C_spec_engine:
  "c_transition C_spec = c_transition C_probe"
  "c_transitionHdg C_spec = c_transitionHdg C_probe"
  "c_transitionClearReferences C_spec = c_transitionClearReferences C_probe"
  by (simp_all add: C_spec_def)

lemma trans_extra_C_spec: "trans_extra C_spec = trans_extra C_probe"
  by (simp add: fun_eq_iff trans_extra_def C_spec_engine split: option.split)

lemma transWindLayer_C_spec: "transWindLayer C_spec = transWindLayer C_probe"
  by (simp add: fun_eq_iff transWindLayer_def trans_extra_C_spec C_spec_engine)

lemma setWinds_resolve_interpolated:
  assumes search: "search_layers (self_alt s) None 0 (hd ws) (tl ws) = (Some b, t)"
    and "b \<noteq> t"
    and s1: "s1 = (if windAlts s \<noteq> int t
                   then s\<lparr>windAlts := int t,
                          cst := c_transitionClearReferences C [str_nat b, str_nat t] (cst s)\<rparr>
                   else s)"
    and top: "transWindLayer C (ws ! t) (str_nat t) elapsed s1 = (twind, s2)"
    and bottom: "transWindLayer C (ws ! b) (str_nat b) elapsed s2 = (bwind, s3)"
    and alts: "l_alt (ws ! t) \<noteq> l_alt (ws ! b)"
    and speeds: "l_speed twind + l_speed bwind \<noteq> 0"
  shows "\<exists>rwind s'. setWinds_resolve C ws elapsed s = Inr (rwind, s') \<and>
           l_hdg rwind =
             c_expoCosineInterpolateHeading C (l_hdg twind) (l_hdg bwind)
               (l_alt (ws ! t)) (l_alt (ws ! b)) (self_alt s)
               (2 * l_speed twind / (l_speed twind + l_speed bwind)) \<and>
           l_speed rwind =
             (if b \<noteq> 0
              then c_interpolate C (l_speed twind) (l_speed bwind)
                     (l_alt (ws ! t)) (l_alt (ws ! b)) (self_alt s)
              else c_expoCosineInterpolate C (l_speed twind) (l_speed bwind)
                     (l_alt (ws ! t)) (l_alt (ws ! b)) (self_alt s)
                     (Some (2 * l_speed twind / (l_speed twind + l_speed bwind))))"
proof -
  have expo: "heading_expo twind bwind = Inr (2 * l_speed twind / (l_speed twind + l_speed bwind))"
    using speeds by (auto simp add: heading_expo_def py_div_def)
  have a1: "l_alt twind = l_alt (ws ! t)" using transWindLayer_alt [OF top] by simp
  have a2: "l_alt bwind = l_alt (ws ! b)" using transWindLayer_alt [OF bottom] by simp
  have alt3: "self_alt s3 = self_alt s"
    using transWindLayer_self_alt [OF top] transWindLayer_self_alt [OF bottom] s1 by simp
  from alts a1 a2 have ne: "l_alt twind \<noteq> l_alt bwind" by simp
  from interpolateWindLayer_heading [OF ne expo, of C "self_alt s" b s3]
  obtain r s' where
    r: "interpolateWindLayer C twind bwind (self_alt s) b s3 = Inr (r, s')"
    and h: "l_hdg r = c_expoCosineInterpolateHeading C (l_hdg twind) (l_hdg bwind)
                       (l_alt twind) (l_alt bwind) (self_alt s)
                       (2 * l_speed twind / (l_speed twind + l_speed bwind))"
    and sp: "l_speed r = (if b \<noteq> 0
                        then c_interpolate C (l_speed twind) (l_speed bwind)
                               (l_alt twind) (l_alt bwind) (self_alt s)
                        else c_expoCosineInterpolate C (l_speed twind) (l_speed bwind)
                               (l_alt twind) (l_alt bwind) (self_alt s)
                               (Some (2 * l_speed twind / (l_speed twind + l_speed bwind))))"
    by blast
  have "setWinds_resolve C ws elapsed s = Inr (r, s')"
  proof (cases "windAlts s = int t")
    case True
    with s1 have "s1 = s" by simp
    with search \<open>b \<noteq> t\<close> top bottom r alt3 True show ?thesis
      by (simp add: setWinds_resolve_def Let_def)
  next
    case False
    with search \<open>b \<noteq> t\<close> top bottom r alt3 s1 show ?thesis
      by (simp add: setWinds_resolve_def Let_def)
  qed
  with h sp a1 a2 show ?thesis by simp
qed

lemma scenario_resolved:
  "\<exists>rwind s'. setWinds_resolve C_spec two_layers elapsed (scenario 500) = Inr (rwind, s') \<and>
      l_hdg rwind = 90 - 90 * (1 / 2) powr (3 / 2) \<and>
      l_speed rwind = 15 - 10 * (1 / 2) powr (3 / 2)"
proof -
  let ?s = "scenario 500"
  let ?s1 = "if windAlts ?s \<noteq> int 1
             then ?s\<lparr>windAlts := int 1,
                    cst := c_transitionClearReferences C_spec [str_nat 0, str_nat 1] (cst ?s)\<rparr>
             else ?s"
  let ?top = "transWindLayer C_spec (two_layers ! 1) (str_nat 1) elapsed ?s1"
  let ?bot = "transWindLayer C_spec (two_layers ! 0) (str_nat 0) elapsed (snd ?top)"
  have clear: "c_transitionClearReferences C_spec = c_transitionClearReferences C_probe"
    by (simp add: C_spec_def)
  have search: "search_layers (self_alt ?s) None 0 (hd two_layers) (tl two_layers) = (Some 0, 1)"
    by code_simp
  have ne: "(0::nat) \<noteq> 1" by simp
  have top: "?top = (fst ?top, snd ?top)" by simp
  have bot: "?bot = (fst ?bot, snd ?bot)" by simp
  have alts: "l_alt (two_layers ! 1) \<noteq> l_alt (two_layers ! 0)" by code_simp
  have vals: "l_hdg (fst ?top) = 90 \<and> l_hdg (fst ?bot) = 0 \<and> l_speed (fst ?top) = 15
      \<and> l_speed (fst ?bot) = 5 \<and> l_alt (two_layers ! 1) = 1000 \<and> l_alt (two_layers ! 0) = 0
      \<and> self_alt ?s = 500"
    unfolding transWindLayer_C_spec clear by code_simp
  then have speeds: "l_speed (fst ?top) + l_speed (fst ?bot) \<noteq> 0" by simp
  have blends: "c_expoCosineInterpolateHeading C_spec = expoCosineInterpolateHeading"
    "c_expoCosineInterpolate C_spec = expoCosineInterpolate"
    by (simp_all add: C_spec_def)
  from setWinds_resolve_interpolated [OF search ne refl top bot alts speeds] vals
  show ?thesis by (simp add: blends scenario_heading scenario_speed)
qed


text \<open>
  C1, as stated, fails. In the scenario of the spec the bottom layer has speed 5 and the
  top layer 15. \<open>setWinds\<close> calls \<open>interpolateWindLayer(twind, bwind, ...)\<close>, top layer
  first, so the exponent is \<open>2 * 15 / (15 + 5)\<close>, not \<open>2 * 5 / (5 + 15)\<close>. (The heading
  blend of \<open>C_probe\<close> returns the exponent it is given.)
\<close>

theorem setWinds_resolve_exponent_counterexample:
  "map_sum (\<lambda>e. e) (\<lambda>r. l_hdg (fst r)) (setWinds_resolve C_probe two_layers 1 (scenario 500))
     = Inr (2 * 15 / (15 + 5)) \<and>
   (2 * 15 / (15 + 5) :: real) \<noteq> 2 * 5 / (5 + 15)"
  by code_simp

text \<open>
  C1, amended. When \<open>setWinds\<close> interpolates between a bottom layer \<open>b\<close> and a top layer
  \<open>t\<close> at different altitudes whose transitioned speeds do not add up to zero, the
  resolved heading is the heading blend of the transitioned top and bottom headings with
  the exponent \<open>2 * speed_top / (speed_top + speed_bottom)\<close>: the speed of the top layer
  is the one in the numerator. The resolved speed is the linear interpolation of the two
  speeds, or, when the bottom layer is the first of the list, their exponential-cosine
  blend with the same exponent. This holds for every helper module. In the scenario of the
  spec, with the blends of the spec, the exponent is \<open>3 / 2\<close>, the resolved heading lies
  strictly between 0 and 90 and the resolved speed strictly between 5 and 15.
\<close>

theorem setWinds_resolve_exponent:
  assumes search: "search_layers (self_alt s) None 0 (hd ws) (tl ws) = (Some b, t)"
    and "b \<noteq> t"
    and s1: "s1 = (if windAlts s \<noteq> int t
                   then s\<lparr>windAlts := int t,
                          cst := c_transitionClearReferences C [str_nat b, str_nat t] (cst s)\<rparr>
                   else s)"
    and top: "transWindLayer C (ws ! t) (str_nat t) elapsed s1 = (twind, s2)"
    and bottom: "transWindLayer C (ws ! b) (str_nat b) elapsed s2 = (bwind, s3)"
    and alts: "l_alt (ws ! t) \<noteq> l_alt (ws ! b)"
    and speeds: "l_speed twind + l_speed bwind \<noteq> 0"
  shows "(\<exists>rwind s'. setWinds_resolve C ws elapsed s = Inr (rwind, s') \<and>
           l_hdg rwind =
             c_expoCosineInterpolateHeading C (l_hdg twind) (l_hdg bwind)
               (l_alt (ws ! t)) (l_alt (ws ! b)) (self_alt s)
               (2 * l_speed twind / (l_speed twind + l_speed bwind)) \<and>
           l_speed rwind =
             (if b \<noteq> 0
              then c_interpolate C (l_speed twind) (l_speed bwind)
                     (l_alt (ws ! t)) (l_alt (ws ! b)) (self_alt s)
              else c_expoCosineInterpolate C (l_speed twind) (l_speed bwind)
                     (l_alt (ws ! t)) (l_alt (ws ! b)) (self_alt s)
                     (Some (2 * l_speed twind / (l_speed twind + l_speed bwind))))) \<and>
         (\<exists>rwind s'. setWinds_resolve C_spec two_layers elapsed (scenario 500) = Inr (rwind, s') \<and>
           l_hdg rwind = expoCosineInterpolateHeading 90 0 1000 0 500 (2 * 15 / (15 + 5)) \<and>
           l_speed rwind = expoCosineInterpolate 15 5 1000 0 500 (Some (2 * 15 / (15 + 5))) \<and>
           0 < l_hdg rwind \<and> l_hdg rwind < 90 \<and> 5 < l_speed rwind \<and> l_speed rwind < 15)"
proof -
  have w: "0 < 90 * (1 / 2 :: real) powr (3 / 2)" "90 * (1 / 2 :: real) powr (3 / 2) < 90"
    "0 < 10 * (1 / 2 :: real) powr (3 / 2)" "10 * (1 / 2 :: real) powr (3 / 2) < 10"
    using half_powr by simp_all
  from scenario_resolved [of elapsed] obtain rwind s' where
    r: "setWinds_resolve C_spec two_layers elapsed (scenario 500) = Inr (rwind, s')"
    and h: "l_hdg rwind = 90 - 90 * (1 / 2) powr (3 / 2)"
    and sp: "l_speed rwind = 15 - 10 * (1 / 2) powr (3 / 2)"
    by blast
  from h sp w have "0 < l_hdg rwind \<and> l_hdg rwind < 90 \<and> 5 < l_speed rwind \<and> l_speed rwind < 15"
    by simp
  moreover from h have "l_hdg rwind = expoCosineInterpolateHeading 90 0 1000 0 500 (2 * 15 / (15 + 5))"
    by (simp add: scenario_heading)
  moreover from sp
  have "l_speed rwind = expoCosineInterpolate 15 5 1000 0 500 (Some (2 * 15 / (15 + 5)))"
    by (simp add: scenario_speed)
  ultimately have scen:
    "\<exists>rwind s'. setWinds_resolve C_spec two_layers elapsed (scenario 500) = Inr (rwind, s') \<and>
           l_hdg rwind = expoCosineInterpolateHeading 90 0 1000 0 500 (2 * 15 / (15 + 5)) \<and>
           l_speed rwind = expoCosineInterpolate 15 5 1000 0 500 (Some (2 * 15 / (15 + 5))) \<and>
           0 < l_hdg rwind \<and> l_hdg rwind < 90 \<and> 5 < l_speed rwind \<and> l_speed rwind < 15"
    using r by blast
  from setWinds_resolve_interpolated [OF assms] scen show ?thesis by blast
qed

theorem setWinds_resolve_exponent_witness:
  "search_layers (self_alt (scenario 500)) None 0 (hd two_layers) (tl two_layers) = (Some 0, 1) \<and>
   l_alt (two_layers ! 1) \<noteq> l_alt (two_layers ! 0) \<and>
   (\<exists>rwind s'. setWinds_resolve C_spec two_layers 1 (scenario 500) = Inr (rwind, s') \<and>
      l_hdg rwind = expoCosineInterpolateHeading 90 0 1000 0 500 (2 * 15 / (15 + 5)) \<and>
      l_speed rwind = expoCosineInterpolate 15 5 1000 0 500 (Some (2 * 15 / (15 + 5))) \<and>
      0 < l_hdg rwind \<and> l_hdg rwind < 90 \<and> 5 < l_speed rwind \<and> l_speed rwind < 15)"
proof -
  let ?s = "scenario 500"
  let ?s1 = "if windAlts ?s \<noteq> int 1
             then ?s\<lparr>windAlts := int 1,
                    cst := c_transitionClearReferences C_spec [str_nat 0, str_nat 1] (cst ?s)\<rparr>
             else ?s"
  let ?top = "transWindLayer C_spec (two_layers ! 1) (str_nat 1) 1 ?s1"
  let ?bot = "transWindLayer C_spec (two_layers ! 0) (str_nat 0) 1 (snd ?top)"
  have clear: "c_transitionClearReferences C_spec = c_transitionClearReferences C_probe"
    by (simp add: C_spec_def)
  have search: "search_layers (self_alt ?s) None 0 (hd two_layers) (tl two_layers) = (Some 0, 1)"
    by code_simp
  have ne: "(0::nat) \<noteq> 1" by simp
  have top: "?top = (fst ?top, snd ?top)" by simp
  have bot: "?bot = (fst ?bot, snd ?bot)" by simp
  have alts: "l_alt (two_layers ! 1) \<noteq> l_alt (two_layers ! 0)" by code_simp
  have vals: "l_speed (fst ?top) = 15 \<and> l_speed (fst ?bot) = 5"
    unfolding transWindLayer_C_spec clear by code_simp
  then have speeds: "l_speed (fst ?top) + l_speed (fst ?bot) \<noteq> 0" by simp
  from setWinds_resolve_exponent [OF search ne refl top bot alts speeds, THEN conjunct2]
    search alts
  show ?thesis by simp
qed

section \<open>Results: the synthetic surface layer\<close>

lemma map_of_metar_variable_wind:
  "map_of extra ''metar'' = Some v \<Longrightarrow>
   map_of (fst (snd (metar_variable_wind C m hdg extra elapsed c))) ''metar'' = Some v"
  by (simp add: metar_variable_wind_def Let_def update_conv' split: option.split prod.split)

lemma map_of_metar_temperature:
  "map_of extra ''metar'' = Some v \<Longrightarrow> map_of (metar_temperature m extra) ''metar'' = Some v"
  by (simp add: metar_temperature_def Let_def update_conv' split: option.split prod.split)

lemma setWinds_metar_present:
  assumes "weatherData s = Some (PDict d)" and "d_metar d = Some m"
    and "m_wind m = Some (hdg, speed, gust)" and "m_elevation m = Some elevation"
  shows "setWinds_metar C winds elapsed s =
     (let vw = metar_variable_wind C m hdg [(''gust'', Num gust), (''metar'', Bool True)] elapsed (cst s);
          tr = c_transition C (elevation + metar_agl_limit (conf s)) ''0-metar_wind_alt'' elapsed
                 0.3048 (snd (snd vw))
      in Inr (\<lparr>l_alt = fst tr, l_hdg = fst vw, l_speed = speed, l_extra = length (heap s)\<rparr>
                # (if length winds > 1 \<and> l_alt (winds ! 0) < fst tr + metar_agl_limit (conf s)
                   then tl winds else winds),
              s\<lparr>heap := heap s @ [metar_temperature m (fst (snd vw))], cst := snd tr\<rparr>))"
  using assms by (simp add: setWinds_metar_def Let_def alloc_def split: prod.split)

text \<open>
  C3, as stated, fails: with a station 500 km away and a distance limit of 100 km the
  surface layer is still built, at 100 + 300 m, and put before the forecast layers (of
  which the lowest is dropped).
\<close>

theorem setWinds_metar_far_station_counterexample:
  "metar_distance_limit (conf (with_station 100 500000 0)) < 500000 \<and>
   map_sum (\<lambda>e. e) (\<lambda>r. map l_alt (fst r))
     (setWinds_metar C_probe two_layers 1 (with_station 100 500000 0)) = Inr [400, 1000] \<and>
   map l_alt two_layers = [0, 1000]"
  by code_simp

text \<open>
  C3, amended. \<open>setWinds\<close> builds the synthetic surface layer whenever the snapshot has a
  station report with a wind and an elevation: the layer carries the report's wind speed
  and the marker \<open>metar\<close>, and stands before the forecast layers. Neither the station's
  distance nor the configured distance limit is read: changing them changes nothing in
  the wind layer list.
\<close>

theorem setWinds_metar_any_distance:
  assumes "weatherData s = Some (PDict d)" and "d_metar d = Some m"
    and "m_wind m = Some (hdg, speed, gust)" and "m_elevation m = Some elevation"
  shows "(\<exists>syn rest s'. setWinds_metar C winds elapsed s = Inr (syn # rest, s') \<and>
            l_speed syn = speed \<and>
            map_of (heap s' ! l_extra syn) ''metar'' = Some (Bool True) \<and>
            (rest = winds \<or> rest = tl winds)) \<and>
         (\<forall>distance lim.
            map_sum (\<lambda>e. e) fst
              (setWinds_metar C winds elapsed
                 (s\<lparr>weatherData := Some (PDict (d\<lparr>d_metar := Some (m\<lparr>m_distance := distance\<rparr>)\<rparr>)),
                    conf := (conf s)\<lparr>metar_distance_limit := lim\<rparr>\<rparr>))
            = map_sum (\<lambda>e. e) fst (setWinds_metar C winds elapsed s))"
proof -
  have marker: "map_of (metar_temperature m (fst (snd (metar_variable_wind C m hdg
          [(''gust'', Num gust), (''metar'', Bool True)] elapsed (cst s))))) ''metar'' = Some (Bool True)"
    by (rule map_of_metar_temperature, rule map_of_metar_variable_wind) simp
  have first: "\<exists>syn rest s'. setWinds_metar C winds elapsed s = Inr (syn # rest, s') \<and>
            l_speed syn = speed \<and>
            map_of (heap s' ! l_extra syn) ''metar'' = Some (Bool True) \<and>
            (rest = winds \<or> rest = tl winds)"
    using marker by (simp add: setWinds_metar_present [OF assms] Let_def)
  have second: "map_sum (\<lambda>e. e) fst
              (setWinds_metar C winds elapsed
                 (s\<lparr>weatherData := Some (PDict (d\<lparr>d_metar := Some (m\<lparr>m_distance := distance\<rparr>)\<rparr>)),
                    conf := (conf s)\<lparr>metar_distance_limit := lim\<rparr>\<rparr>))
            = map_sum (\<lambda>e. e) fst (setWinds_metar C winds elapsed s)" for distance lim
    using assms
    by (simp add: setWinds_metar_def Let_def alloc_def metar_variable_wind_def
        metar_temperature_def split: prod.split option.split)
  from first second show ?thesis by blast
qed

theorem setWinds_metar_any_distance_witness:
  "weatherData (with_station 100 500000 0) = Some (PDict (station_dict 100 500000)) \<and>
   d_metar (station_dict 100 500000) = Some (station_metar 100 500000) \<and>
   m_wind (station_metar 100 500000) = Some (270, 10, 0) \<and>
   m_elevation (station_metar 100 500000) = Some 100 \<and>
   (\<exists>syn rest s'.
      setWinds_metar C_probe two_layers 1 (with_station 100 500000 0) = Inr (syn # rest, s') \<and>
      l_speed syn = 10 \<and>
      map_of (heap s' ! l_extra syn) ''metar'' = Some (Bool True))"
proof -
  have a1: "weatherData (with_station 100 500000 0) = Some (PDict (station_dict 100 500000))"
    by (simp add: with_station_def)
  have a2: "d_metar (station_dict 100 500000) = Some (station_metar 100 500000)"
    by (simp add: station_dict_def)
  have a3: "m_wind (station_metar 100 500000) = Some (270, 10, 0)"
    by (simp add: station_metar_def)
  have a4: "m_elevation (station_metar 100 500000) = Some 100"
    by (simp add: station_metar_def)
  from setWinds_metar_any_distance [OF a1 a2 a3 a4, of C_probe two_layers 1] a1 a2 a3 a4
  show ?thesis by blast
qed

text \<open>
  C4, as stated, fails where the lowest forecast layer lies far below the station: with
  the station at 2000 m and an offset of 300 m the synthetic layer stands at 2300 m; the
  forecast layer at 0 m is 2300 m away from it, which is not closer than 300 m, and it is
  dropped all the same.
\<close>

theorem setWinds_metar_drops_far_below_counterexample:
  "\<not> \<bar>l_alt (two_layers ! 0) - 2300\<bar> < metar_agl_limit (conf (with_station 2000 5000 0)) \<and>
   map_sum (\<lambda>e. e) (\<lambda>r. map l_alt (fst r))
     (setWinds_metar C_probe two_layers 1 (with_station 2000 5000 0)) = Inr [2300, 1000] \<and>
   map l_alt two_layers = [0, 1000]"
  by code_simp

text \<open>
  C4, amended. When the synthetic layer is built, at the transitioned altitude of
  station elevation plus offset, \<open>setWinds\<close> drops the lowest forecast layer exactly when
  there is more than one forecast layer and the lowest one is lower than the synthetic
  layer's altitude plus the offset, be it close to the synthetic layer or anywhere below
  it; otherwise the forecast layers are kept as they are.
\<close>

theorem setWinds_metar_drops_lowest:
  assumes "weatherData s = Some (PDict d)" and "d_metar d = Some m"
    and "m_wind m = Some (hdg, speed, gust)" and "m_elevation m = Some elevation"
  shows "\<exists>syn s'.
           setWinds_metar C winds elapsed s =
             Inr (syn # (if length winds > 1
                            \<and> l_alt (winds ! 0) < l_alt syn + metar_agl_limit (conf s)
                         then tl winds else winds), s') \<and>
           l_alt syn =
             fst (c_transition C (elevation + metar_agl_limit (conf s)) ''0-metar_wind_alt''
                    elapsed 0.3048
                    (snd (snd (metar_variable_wind C m hdg
                       [(''gust'', Num gust), (''metar'', Bool True)] elapsed (cst s)))))"
  by (simp add: setWinds_metar_present [OF assms] Let_def)

theorem setWinds_metar_drops_lowest_witness:
  "weatherData (with_station 2000 5000 0) = Some (PDict (station_dict 2000 5000)) \<and>
   d_metar (station_dict 2000 5000) = Some (station_metar 2000 5000) \<and>
   m_wind (station_metar 2000 5000) = Some (270, 10, 0) \<and>
   m_elevation (station_metar 2000 5000) = Some 2000 \<and>
   (\<exists>syn s'.
      setWinds_metar C_probe two_layers 1 (with_station 2000 5000 0) =
        Inr (syn # (if length two_layers > 1
                       \<and> l_alt (two_layers ! 0)
                          < l_alt syn + metar_agl_limit (conf (with_station 2000 5000 0))
                    then tl two_layers else two_layers), s'))"
proof -
  have a1: "weatherData (with_station 2000 5000 0) = Some (PDict (station_dict 2000 5000))"
    by (simp add: with_station_def)
  have a2: "d_metar (station_dict 2000 5000) = Some (station_metar 2000 5000)"
    by (simp add: station_dict_def)
  have a3: "m_wind (station_metar 2000 5000) = Some (270, 10, 0)"
    by (simp add: station_metar_def)
  have a4: "m_elevation (station_metar 2000 5000) = Some 2000"
    by (simp add: station_metar_def)
  from setWinds_metar_drops_lowest [OF a1 a2 a3 a4, of C_probe two_layers 1] a1 a2 a3 a4
  show ?thesis by blast
qed

section \<open>Results: the snapshot's dictionaries\<close>































section \<open>Results: the reset of the transitions\<close>

lemma keys_transition: "fst ` set (snd (transition v k e r refs)) = insert k (fst ` set refs)"
  by (simp add: transition_def Let_def dom_update split: option.split)

lemma keys_transitionHdg: "fst ` set (snd (transitionHdg v k e r refs)) = insert k (fst ` set refs)"
  by (simp add: transitionHdg_def Let_def dom_update split: option.split)

lemma keys_clear:
  "fst ` set (transitionClearReferences ex refs) = {k \<in> fst ` set refs. key_id k \<in> set ex}"
  by (auto simp add: transitionClearReferences_def)

lemma key_id_append: "CHR ''-'' \<notin> set i \<Longrightarrow> key_id (i @ CHR ''-'' # rest) = i"
  by (induction i) (auto simp add: key_id_def)

lemma digit_no_dash: "n < 10 \<Longrightarrow> ''0123456789'' ! n \<noteq> CHR ''-''"
proof -
  assume "n < 10"
  then have "n \<in> {0, 1, 2, 3, 4, 5, 6, 7, 8, 9}" by auto
  then show ?thesis by auto
qed

lemma str_nat_no_dash: "CHR ''-'' \<notin> set (str_nat n)"
proof (induction n rule: str_nat.induct)
  case (1 n)
  show ?case
  proof (cases "n < 10")
    case True
    then show ?thesis using digit_no_dash [of n] by (subst str_nat.simps) simp
  next
    case False
    then have "n mod 10 < 10" by simp
    with False 1 show ?thesis using digit_no_dash [of "n mod 10"]
      by (subst str_nat.simps) simp
  qed
qed

lemma keys_step_refl: "keys_step ident refs refs"
  by (simp add: keys_step_def)

lemma keys_step_trans:
  assumes "keys_step ident r1 r2" and "keys_step ident r2 r3"
  shows "keys_step ident r1 r3"
proof -
  from assms have sub: "fst ` set r1 \<subseteq> fst ` set r3"
    unfolding keys_step_def by (meson subset_trans)
  have "k \<in> fst ` set r1 \<or> key_id k = ident" if "k \<in> fst ` set r3" for k
  proof -
    from that assms(2) have "k \<in> fst ` set r2 \<or> key_id k = ident"
      unfolding keys_step_def by (meson)
    with assms(1) show ?thesis unfolding keys_step_def by meson
  qed
  with sub show ?thesis unfolding keys_step_def by meson
qed


lemma keys_step_transition:
  "CHR ''-'' \<notin> set ident \<Longrightarrow>
   keys_step ident refs (snd (transition v (ident @ CHR ''-'' # var) e r refs))"
  by (auto simp add: keys_step_def keys_transition key_id_append)

lemma keys_step_transitionHdg:
  "CHR ''-'' \<notin> set ident \<Longrightarrow>
   keys_step ident refs (snd (transitionHdg v (ident @ CHR ''-'' # var) e r refs))"
  by (auto simp add: keys_step_def keys_transitionHdg key_id_append)


lemma trans_extra_keys:
  assumes "CHR ''-'' \<notin> set ident"
  shows "keys_step ident (cst s) (cst (trans_extra C_probe ident elapsed x var s))"
proof (cases "map_of (heap s ! x) var")
  case None
  then show ?thesis by (simp add: trans_extra_def keys_step_refl)
next
  case (Some v)
  from keys_step_transition [OF assms, of "cst s" "num v" var elapsed "windGustTransSpeed (conf s)"]
  show ?thesis using Some
    by (simp add: trans_extra_def Let_def C_probe_def case_prod_beta)
qed

lemma fold_trans_extra_keys:
  "CHR ''-'' \<notin> set ident \<Longrightarrow> cst s = c \<Longrightarrow>
   keys_step ident c (cst (fold (trans_extra C_probe ident elapsed x) vars s))"
proof (induction vars arbitrary: s c)
  case Nil
  then show ?case by (simp add: keys_step_refl)
next
  case (Cons v vars)
  have "keys_step ident c (cst (trans_extra C_probe ident elapsed x v s))"
    using Cons.prems trans_extra_keys [of ident s elapsed x v] by simp
  moreover have "keys_step ident (cst (trans_extra C_probe ident elapsed x v s))
      (cst (fold (trans_extra C_probe ident elapsed x) vars (trans_extra C_probe ident elapsed x v s)))"
    using Cons.prems by (intro Cons.IH) simp_all
  ultimately show ?case by (auto intro: keys_step_trans)
qed

lemma transWindLayer_keys:
  assumes "transWindLayer C_probe w ident elapsed s = (w', s')" and "CHR ''-'' \<notin> set ident"
  shows "keys_step ident (cst s) (cst s')"
proof -
  let ?c1 = "snd (transitionHdg (l_hdg w) (ident @ ''-hdg'') elapsed (windHdgTransSpeed (conf s)) (cst s))"
  let ?c2 = "snd (transition (l_speed w) (ident @ ''-speed'') elapsed (windHdgTransSpeed (conf s)) ?c1)"
  let ?s1 = "fold (trans_extra C_probe ident elapsed (l_extra w)) [''gust'', ''rh'', ''dew'']
               (s\<lparr>cst := ?c2\<rparr>)"
  have 1: "keys_step ident (cst s) ?c1"
    using keys_step_transitionHdg [OF assms(2), of "cst s" _ "''hdg''"] by simp
  have 2: "keys_step ident ?c1 ?c2"
    using keys_step_transition [OF assms(2), of ?c1 _ "''speed''"] by simp
  have 3: "keys_step ident ?c2 (cst ?s1)"
    by (rule fold_trans_extra_keys [OF assms(2)]) simp
  have "cst s' = cst ?s1"
    using assms(1)
    by (auto simp add: transWindLayer_def Let_def C_probe_def case_prod_beta split: if_splits)
  with 1 2 3 show ?thesis by (auto intro: keys_step_trans)
qed




lemma interpolateWindLayer_cst:
  "interpolateWindLayer C w1 w2 a n s = Inr (r, s') \<Longrightarrow> cst s' = cst s \<and> windAlts s' = windAlts s"
  by (auto simp add: interpolateWindLayer_def Let_def alloc_def split: if_splits sum.splits)

lemma trans_extra_windAlts: "windAlts (trans_extra C ident elapsed x var s) = windAlts s"
  by (simp add: trans_extra_def Let_def split: option.split prod.split)

lemma transWindLayer_windAlts:
  "transWindLayer C w ident elapsed s = (w', s') \<Longrightarrow> windAlts s' = windAlts s"
  by (auto simp add: transWindLayer_def Let_def trans_extra_windAlts split: prod.splits if_splits)

lemma setWinds_publish_cst:
  "cst (setWinds_publish C ws t r elapsed s) = cst s"
  "windAlts (setWinds_publish C ws t r elapsed s) = windAlts s"
  by (simp_all add: setWinds_publish_def setWindLayer_def Let_def split: option.split)


lemma setWinds_metar_cases:
  assumes "setWinds_metar C winds elapsed s = Inr (ws, s1)"
  shows "(ws = winds \<and> s1 = s) \<or>
         (\<exists>d m hdg speed gust elevation.
            weatherData s = Some (PDict d) \<and> d_metar d = Some m \<and>
            m_wind m = Some (hdg, speed, gust) \<and> m_elevation m = Some elevation)"
proof (cases "weatherData s")
  case None
  with assms show ?thesis by (simp add: setWinds_metar_def)
next
  case (Some p)
  show ?thesis
  proof (cases p)
    case (PStr x)
    with Some assms show ?thesis by (simp add: setWinds_metar_def split: if_splits)
  next
    case (PDict d)
    show ?thesis
    proof (cases "d_metar d")
      case None
      with Some PDict assms show ?thesis by (simp add: setWinds_metar_def)
    next
      case m: (Some m)
      show ?thesis
      proof (cases "m_wind m")
        case None
        with Some PDict m assms show ?thesis by (simp add: setWinds_metar_def)
      next
        case w: (Some w)
        obtain hdg speed gust where "w = (hdg, speed, gust)" by (cases w)
        with Some PDict m w assms show ?thesis
          by (cases "m_elevation m") (simp_all add: setWinds_metar_def)
      qed
    qed
  qed
qed

lemma metar_variable_wind_probe:
  "snd (snd (metar_variable_wind C_probe m hdg extra elapsed c)) = c"
  by (simp add: metar_variable_wind_def C_probe_def Let_def split: option.split)

lemma setWinds_metar_keys:
  assumes "setWinds_metar C_probe winds elapsed s = Inr (ws, s1)"
  shows "fst ` set (cst s) \<subseteq> fst ` set (cst s1) \<and> windAlts s1 = windAlts s
         \<and> self_alt s1 = self_alt s"
proof -
  from setWinds_metar_cases [OF assms] show ?thesis
  proof
    assume "ws = winds \<and> s1 = s"
    then show ?thesis by simp
  next
    assume "\<exists>d m hdg speed gust elevation.
            weatherData s = Some (PDict d) \<and> d_metar d = Some m \<and>
            m_wind m = Some (hdg, speed, gust) \<and> m_elevation m = Some elevation"
    then obtain d m hdg speed gust elevation where
      p: "weatherData s = Some (PDict d)" "d_metar d = Some m"
         "m_wind m = Some (hdg, speed, gust)" "m_elevation m = Some elevation" by blast
    have t: "c_transition C_probe = transition" by (simp add: C_probe_def)
    from assms have "cst s1 = snd (transition (elevation + metar_agl_limit (conf s))
          ''0-metar_wind_alt'' elapsed 0.3048 (cst s))"
      and "windAlts s1 = windAlts s" and "self_alt s1 = self_alt s"
      unfolding setWinds_metar_present [OF p]
      by (auto simp add: Let_def t metar_variable_wind_probe)
    then show ?thesis by (simp add: keys_transition subset_insertI)
  qed
qed

lemma map_of_clear:
  "map_of (transitionClearReferences ex refs) k =
     (if key_id k \<in> set ex then map_of refs k else None)"
  by (induction refs) (auto simp add: transitionClearReferences_def)

lemma trans_extra_clear_indep:
  "trans_extra (C\<lparr>c_transitionClearReferences := f\<rparr>) = trans_extra C"
  by (simp add: fun_eq_iff trans_extra_def split: option.split)

lemma transWindLayer_clear_indep:
  "transWindLayer (C\<lparr>c_transitionClearReferences := f\<rparr>) = transWindLayer C"
  by (simp add: fun_eq_iff transWindLayer_def trans_extra_clear_indep)

lemma interpolate_extra_clear_indep:
  "interpolate_extra (C\<lparr>c_transitionClearReferences := f\<rparr>) = interpolate_extra C"
  by (simp add: fun_eq_iff interpolate_extra_def Let_def split: option.split prod.split)

lemma interpolateWindLayer_clear_indep:
  "interpolateWindLayer (C\<lparr>c_transitionClearReferences := f\<rparr>) = interpolateWindLayer C"
  by (simp add: fun_eq_iff interpolateWindLayer_def interpolate_extra_clear_indep Let_def
      split: sum.split prod.split)

lemma setWinds_resolve_no_clear:
  assumes "search_layers (self_alt s) None 0 (hd ws) (tl ws) = (b, t)" and "windAlts s = int t"
  shows "setWinds_resolve (C\<lparr>c_transitionClearReferences := f\<rparr>) ws elapsed s
           = setWinds_resolve C ws elapsed s"
  using assms
  by (simp add: setWinds_resolve_def Let_def transWindLayer_clear_indep
      interpolateWindLayer_clear_indep split: prod.split option.split)

lemma setWinds_resolve_clear:
  assumes "search_layers (self_alt s) None 0 (hd ws) (tl ws) = (b, t)" and "windAlts s \<noteq> int t"
  shows "setWinds_resolve C ws elapsed s
           = setWinds_resolve C ws elapsed
               (s\<lparr>windAlts := int t,
                  cst := c_transitionClearReferences C [str_blayer b, str_nat t] (cst s)\<rparr>)"
  using assms by (simp add: setWinds_resolve_def)

lemma metar_variable_wind_clear_indep:
  "metar_variable_wind (C\<lparr>c_transitionClearReferences := f\<rparr>) = metar_variable_wind C"
  by (simp add: fun_eq_iff metar_variable_wind_def Let_def split: option.split prod.split)

lemma setWinds_metar_clear_indep:
  "setWinds_metar (C\<lparr>c_transitionClearReferences := f\<rparr>) = setWinds_metar C"
  by (simp add: fun_eq_iff setWinds_metar_def metar_variable_wind_clear_indep Let_def
      split: option.split payload.split prod.split)

lemma setWinds_publish_clear_indep:
  "setWinds_publish (C\<lparr>c_transitionClearReferences := f\<rparr>) = setWinds_publish C"
  by (simp add: fun_eq_iff setWinds_publish_def Let_def split: option.split)

lemma setWinds_keys_after:
  assumes metar: "setWinds_metar C_probe winds elapsed s = Inr (ws, s1)"
    and ne: "ws \<noteq> []"
    and search: "search_layers (self_alt s) None 0 (hd ws) (tl ws) = (b, t)"
    and res: "setWinds C_probe winds elapsed s = Inr s'"
  shows "windAlts s' = int t \<and>
         (windAlts s \<noteq> int t \<longrightarrow>
            (\<forall>k \<in> fst ` set (cst s'). key_id k = str_blayer b \<or> key_id k = str_nat t)) \<and>
         (windAlts s = int t \<longrightarrow> fst ` set (cst s) \<subseteq> fst ` set (cst s'))"
proof -
  from setWinds_metar_keys [OF metar]
  have k01: "fst ` set (cst s) \<subseteq> fst ` set (cst s1)" and w1: "windAlts s1 = windAlts s"
    and a1: "self_alt s1 = self_alt s" by auto
  define s2 where "s2 = (if windAlts s1 \<noteq> int t
               then s1\<lparr>windAlts := int t,
                       cst := c_transitionClearReferences C_probe
                               [str_blayer b, str_nat t] (cst s1)\<rparr>
               else s1)"
  have w2: "windAlts s2 = int t" by (simp add: s2_def)
  have clear: "c_transitionClearReferences C_probe = transitionClearReferences"
    by (simp add: C_probe_def)
  obtain twind s3 where top: "transWindLayer C_probe (ws ! t) (str_nat t) elapsed s2 = (twind, s3)"
    by (cases "transWindLayer C_probe (ws ! t) (str_nat t) elapsed s2")
  have k23: "keys_step (str_nat t) (cst s2) (cst s3)"
    using transWindLayer_keys [OF top] by (simp add: str_nat_no_dash)
  have w3: "windAlts s3 = int t" using transWindLayer_windAlts [OF top] w2 by simp
  have resolve: "setWinds_resolve C_probe ws elapsed s1 =
     (case b of None \<Rightarrow> Inr (twind, s3)
      | Some j \<Rightarrow> if j \<noteq> t then
           (let (bwind, s4) = transWindLayer C_probe (ws ! j) (str_nat j) elapsed s3
            in interpolateWindLayer C_probe twind bwind (self_alt s4) j s4)
         else Inr (twind, s3))"
    using search top a1 by (simp add: setWinds_resolve_def Let_def s2_def)
  from res metar ne obtain r s5 where r5: "setWinds_resolve C_probe ws elapsed s1 = Inr (r, s5)"
    and c5: "cst s' = cst s5" and w5: "windAlts s' = windAlts s5"
    by (auto simp add: setWinds_def setWinds_publish_cst split: sum.splits)
  have "keys_step (str_blayer b) (cst s3) (cst s5) \<and> windAlts s5 = int t"
  proof (cases "\<exists>j. b = Some j \<and> j \<noteq> t")
    case False
    with resolve r5 have e: "s5 = s3" by (auto split: option.splits if_splits)
    show ?thesis by (simp add: e w3 keys_step_refl)
  next
    case True
    then obtain j where j: "b = Some j" "j \<noteq> t" by blast
    obtain bwind s4 where bot: "transWindLayer C_probe (ws ! j) (str_nat j) elapsed s3 = (bwind, s4)"
      by (cases "transWindLayer C_probe (ws ! j) (str_nat j) elapsed s3")
    from resolve j bot r5
    have int: "interpolateWindLayer C_probe twind bwind (self_alt s4) j s4 = Inr (r, s5)" by simp
    have "keys_step (str_nat j) (cst s3) (cst s4)"
      using transWindLayer_keys [OF bot] by (simp add: str_nat_no_dash)
    moreover have "cst s5 = cst s4" "windAlts s5 = int t"
      using interpolateWindLayer_cst [OF int] transWindLayer_windAlts [OF bot] w3 by simp_all
    ultimately show ?thesis using j by simp
  qed
  then have k34: "keys_step (str_blayer b) (cst s3) (cst s5)"
    and w5t: "windAlts s5 = int t" by simp_all
  have first: "windAlts s' = int t" using w5 w5t by simp
  have second: "\<forall>k \<in> fst ` set (cst s'). key_id k = str_blayer b \<or> key_id k = str_nat t"
    if "windAlts s \<noteq> int t"
  proof -
    from that w1 have "cst s2 = transitionClearReferences [str_blayer b, str_nat t] (cst s1)"
      by (simp add: s2_def clear)
    then have "\<forall>k \<in> fst ` set (cst s2). key_id k = str_blayer b \<or> key_id k = str_nat t"
      by (simp add: keys_clear)
    with k23 k34 c5 show ?thesis unfolding keys_step_def by metis
  qed
  have third: "fst ` set (cst s) \<subseteq> fst ` set (cst s')" if "windAlts s = int t"
  proof -
    from that w1 have "s2 = s1" by (simp add: s2_def)
    with k23 have A: "fst ` set (cst s1) \<subseteq> fst ` set (cst s3)" by (simp add: keys_step_def)
    from k34 have B: "fst ` set (cst s3) \<subseteq> fst ` set (cst s5)"
      by (simp add: keys_step_def)
    from k01 A have "fst ` set (cst s) \<subseteq> fst ` set (cst s3)" by (rule subset_trans)
    from this B have "fst ` set (cst s) \<subseteq> fst ` set (cst s5)" by (rule subset_trans)
    then show ?thesis by (simp add: c5)
  qed
  from first second third show ?thesis by blast
qed

text \<open>
  C2, as stated, fails. In the scenario the first call, at altitude 500, finds the pair
  (bottom 0, top 1) and leaves entries for both layers in the transition table. The next
  call, at altitude 1500, finds the pair (bottom 1, top 1): the pair has changed, but the
  top index has not, \<open>setWinds\<close> compares only \<open>self.windAlts\<close> with the top index, and the
  entries of layer 0, which is neither bottom nor top any more, are still in the table.
\<close>

theorem setWinds_bottom_change_counterexample:
  "search_layers 500 None 0 (hd two_layers) (tl two_layers) = (Some 0, 1) \<and>
   search_layers 1500 None 0 (hd two_layers) (tl two_layers) = (Some 1, 1) \<and>
   map_sum (\<lambda>e. e) (\<lambda>s. (self_alt s, map fst (cst s)))
     (setWinds C_probe two_layers 1 (scenario 500))
     = Inr (500, [''1-hdg'', ''1-speed'', ''0-hdg'', ''0-speed'']) \<and>
   self_alt after_first_call = 1500 \<and>
   map_sum (\<lambda>e. e) (\<lambda>s. map fst (cst s)) (setWinds C_probe two_layers 1 after_first_call)
     = Inr [''1-hdg'', ''1-speed'', ''0-hdg'', ''0-speed'']"
  by code_simp

text \<open>
  C2, amended. \<open>setWinds\<close> remembers the top index of its last call in \<open>self.windAlts\<close>,
  and the call remembers the new top index \<open>t\<close>. With the transition engine of the spec:
  a call whose top index differs from the remembered one runs as it would on the table
  cleared with \<open>exclude = [str(b), str(t)]\<close>, the new bottom and top indices: in that table
  the entries of these two layers are the ones before, those of every other layer are
  gone, and after the call every entry belongs to one of the two. A call whose top index
  is the remembered one does not call the clearing operation, whatever that operation
  would do, and every key of the table is still there afterwards, also when the bottom
  index has changed.
\<close>

theorem setWinds_clears_on_top_change:
  assumes metar: "setWinds_metar C_probe winds elapsed s = Inr (ws, s1)"
    and ne: "ws \<noteq> []"
    and search: "search_layers (self_alt s) None 0 (hd ws) (tl ws) = (b, t)"
    and res: "setWinds C_probe winds elapsed s = Inr s'"
  shows "windAlts s' = int t \<and>
         (\<exists>r s2. setWinds_resolve C_probe ws elapsed s1 = Inr (r, s2) \<and>
                  s' = setWinds_publish C_probe ws t r elapsed s2) \<and>
         (windAlts s \<noteq> int t \<longrightarrow>
            setWinds_resolve C_probe ws elapsed s1
              = setWinds_resolve C_probe ws elapsed
                  (s1\<lparr>windAlts := int t,
                      cst := transitionClearReferences [str_blayer b, str_nat t] (cst s1)\<rparr>) \<and>
            (\<forall>k. map_of (transitionClearReferences [str_blayer b, str_nat t] (cst s1)) k
                   = (if key_id k = str_blayer b \<or> key_id k = str_nat t
                      then map_of (cst s1) k else None)) \<and>
            (\<forall>k \<in> fst ` set (cst s'). key_id k = str_blayer b \<or> key_id k = str_nat t)) \<and>
         (windAlts s = int t \<longrightarrow>
            (\<forall>f. setWinds (C_probe\<lparr>c_transitionClearReferences := f\<rparr>) winds elapsed s
                   = setWinds C_probe winds elapsed s) \<and>
            fst ` set (cst s) \<subseteq> fst ` set (cst s'))"
proof -
  from setWinds_metar_keys [OF metar]
  have w1: "windAlts s1 = windAlts s" and a1: "self_alt s1 = self_alt s" by auto
  from search a1 have search1: "search_layers (self_alt s1) None 0 (hd ws) (tl ws) = (b, t)"
    by simp
  have clear: "c_transitionClearReferences C_probe = transitionClearReferences"
    by (simp add: C_probe_def)
  from res metar ne search a1
  have tie: "\<exists>r s2. setWinds_resolve C_probe ws elapsed s1 = Inr (r, s2) \<and>
                  s' = setWinds_publish C_probe ws t r elapsed s2"
    by (auto simp add: setWinds_def split: sum.splits)
  have changed: "setWinds_resolve C_probe ws elapsed s1
              = setWinds_resolve C_probe ws elapsed
                  (s1\<lparr>windAlts := int t,
                      cst := transitionClearReferences [str_blayer b, str_nat t] (cst s1)\<rparr>)"
    if "windAlts s \<noteq> int t"
    using setWinds_resolve_clear [where C = C_probe and elapsed = elapsed, OF search1] that w1
    by (simp add: clear)
  have kept: "map_of (transitionClearReferences [str_blayer b, str_nat t] (cst s1)) k
                   = (if key_id k = str_blayer b \<or> key_id k = str_nat t
                      then map_of (cst s1) k else None)" for k
    by (simp add: map_of_clear)
  have same: "setWinds (C_probe\<lparr>c_transitionClearReferences := f\<rparr>) winds elapsed s
                   = setWinds C_probe winds elapsed s"
    if "windAlts s = int t" for f
    using setWinds_resolve_no_clear [where C = C_probe and f = f and elapsed = elapsed, OF search1]
      that w1 metar ne a1
    by (simp add: setWinds_def setWinds_metar_clear_indep setWinds_publish_clear_indep
        split: sum.split prod.split)
  from setWinds_keys_after [OF metar ne search res] tie changed kept same
  show ?thesis by blast
qed

theorem setWinds_clears_on_top_change_witness:
  "cst descended = [(''2-hdg'', 180), (''2-speed'', 25), (''1-hdg'', 90), (''1-speed'', 15)] \<and>
   windAlts descended = int 2 \<and>
   setWinds_metar C_probe (three_layers 20) 1 descended = Inr (three_layers 20, descended) \<and>
   search_layers (self_alt descended) None 0 (hd (three_layers 20)) (tl (three_layers 20))
     = (Some 0, 1) \<and>
   (\<exists>s'. setWinds C_probe (three_layers 20) 1 descended = Inr s' \<and> windAlts s' = int 1 \<and>
      (\<forall>k \<in> fst ` set (cst s'). key_id k = str_blayer (Some 0) \<or> key_id k = str_nat 1) \<and>
      cst s' = [(''1-hdg'', 90), (''1-speed'', 16), (''0-hdg'', 0), (''0-speed'', 5)]) \<and>
   map_of (transitionClearReferences [str_blayer (Some 0), str_nat 1] (cst descended)) ''1-speed''
     = Some 15 \<and>
   map_of (transitionClearReferences [str_blayer (Some 0), str_nat 1] (cst descended)) ''2-speed''
     = None \<and>
   windAlts after_first_call = int 1 \<and>
   cst after_first_call = [(''1-hdg'', 90), (''1-speed'', 15), (''0-hdg'', 0), (''0-speed'', 5)] \<and>
   setWinds_metar C_probe two_layers 1 after_first_call = Inr (two_layers, after_first_call) \<and>
   search_layers (self_alt after_first_call) None 0 (hd two_layers) (tl two_layers) = (Some 1, 1) \<and>
   (\<exists>s'. setWinds C_probe two_layers 1 after_first_call = Inr s' \<and> windAlts s' = int 1 \<and>
      fst ` set (cst after_first_call) \<subseteq> fst ` set (cst s'))"
proof -
  have c0: "cst descended
              = [(''2-hdg'', 180), (''2-speed'', 25), (''1-hdg'', 90), (''1-speed'', 15)]"
    by code_simp
  have w0: "windAlts descended = int 2" by code_simp
  have m0: "setWinds_metar C_probe (three_layers 20) 1 descended = Inr (three_layers 20, descended)"
    by code_simp
  have ne0: "three_layers 20 \<noteq> []" by (simp add: three_layers_def)
  have s0: "search_layers (self_alt descended) None 0 (hd (three_layers 20)) (tl (three_layers 20))
              = (Some 0, 1)"
    by code_simp
  have run0: "map_sum (\<lambda>e. e) cst (setWinds C_probe (three_layers 20) 1 descended)
                = Inr [(''1-hdg'', 90), (''1-speed'', 16), (''0-hdg'', 0), (''0-speed'', 5)]"
    by code_simp
  then obtain s' where r0: "setWinds C_probe (three_layers 20) 1 descended = Inr s'"
    and c': "cst s' = [(''1-hdg'', 90), (''1-speed'', 16), (''0-hdg'', 0), (''0-speed'', 5)]"
    by (cases "setWinds C_probe (three_layers 20) 1 descended") auto
  have k1: "key_id ''1-speed'' = str_nat 1" "key_id ''2-speed'' \<noteq> str_blayer (Some 0)"
    "key_id ''2-speed'' \<noteq> str_nat 1" "map_of (cst descended) ''1-speed'' = Some 15"
    by code_simp+
  from setWinds_clears_on_top_change [OF m0 ne0 s0 r0] w0
  have t0: "windAlts s' = int 1"
    "\<forall>k \<in> fst ` set (cst s'). key_id k = str_blayer (Some 0) \<or> key_id k = str_nat 1"
    "\<forall>k. map_of (transitionClearReferences [str_blayer (Some 0), str_nat 1] (cst descended)) k
                   = (if key_id k = str_blayer (Some 0) \<or> key_id k = str_nat 1
                      then map_of (cst descended) k else None)"
    by simp_all
  from t0(3) k1 have kept:
    "map_of (transitionClearReferences [str_blayer (Some 0), str_nat 1] (cst descended)) ''1-speed''
       = Some 15"
    "map_of (transitionClearReferences [str_blayer (Some 0), str_nat 1] (cst descended)) ''2-speed''
       = None"
    by simp_all
  have w1: "windAlts after_first_call = int 1" by code_simp
  have c1: "cst after_first_call
              = [(''1-hdg'', 90), (''1-speed'', 15), (''0-hdg'', 0), (''0-speed'', 5)]"
    by code_simp
  have m1: "setWinds_metar C_probe two_layers 1 after_first_call = Inr (two_layers, after_first_call)"
    by code_simp
  have ne1: "two_layers \<noteq> []" by (simp add: two_layers_def)
  have s1: "search_layers (self_alt after_first_call) None 0 (hd two_layers) (tl two_layers)
              = (Some 1, 1)"
    by code_simp
  have "\<not> isl (setWinds C_probe two_layers 1 after_first_call)" by code_simp
  then obtain s'' where r1: "setWinds C_probe two_layers 1 after_first_call = Inr s''"
    by (cases "setWinds C_probe two_layers 1 after_first_call") auto
  from setWinds_clears_on_top_change [OF m1 ne1 s1 r1] w1
  have t1: "windAlts s'' = int 1" "fst ` set (cst after_first_call) \<subseteq> fst ` set (cst s'')"
    by simp_all
  from c0 w0 m0 s0 r0 c' t0(1,2) kept w1 c1 m1 s1 r1 t1 show ?thesis by blast
qed

end
